theory Spec2Isabelle
  imports Main
begin

section \<open>Gopher2600: the reference television and the TIA video cycle\<close>

text \<open>
  The development embeds two pieces of the emulator:
  \<^item> the reference implementation of the \<^verbatim>\<open>Television\<close> interface (package
    \<^verbatim>\<open>television\<close>, type \<^verbatim>\<open>reference\<close>): \<^verbatim>\<open>Signal\<close>, \<^verbatim>\<open>newFrame\<close>, \<^verbatim>\<open>newScanline\<close>,
    \<^verbatim>\<open>SetSpec\<close>, \<^verbatim>\<open>Reset\<close>, \<^verbatim>\<open>IsStable\<close>, \<^verbatim>\<open>GetState\<close>, \<^verbatim>\<open>Snapshot\<close>, \<^verbatim>\<open>RestoreSnapshot\<close>;
  \<^item> the chip side (package \<^verbatim>\<open>tia\<close>): \<^verbatim>\<open>StepVideoCycle\<close>.

  Go's \<^verbatim>\<open>int\<close> is modelled by \<open>int\<close>: every counter of the television moves by one per
  call, so the 64-bit range is out of reach of any run.
\<close>

subsection \<open>Data\<close>

text \<open>\<^verbatim>\<open>SignalAttributes\<close>: the data sent to the television on every colour clock.\<close>

record SignalAttributes =
  VSync :: bool
  VBlank :: bool
  FrontPorch :: bool
  HSync :: bool
  CBurst :: bool
  Pixel :: int
  AudioUpdate :: bool
  AudioData :: nat

text \<open>The zero value \<^verbatim>\<open>SignalAttributes{}\<close>.\<close>

definition noSignal :: SignalAttributes where
  "noSignal = \<lparr>VSync = False, VBlank = False, FrontPorch = False, HSync = False,
     CBurst = False, Pixel = 0, AudioUpdate = False, AudioData = 0\<rparr>"

text \<open>
  \<^verbatim>\<open>Spec\<close>: the fields of a television specification that the reference television
  reads. The palette is read through \<^verbatim>\<open>getColor\<close>, a parameter of the environment below.
\<close>

record Spec =
  ID :: string
  ScanlinesTotal :: int
  ScanlineTop :: int
  ScanlineBottom :: int

definition zeroSpec :: Spec where
  "zeroSpec = \<lparr>ID = [], ScanlinesTotal = 0, ScanlineTop = 0, ScanlineBottom = 0\<rparr>"

text \<open>\<^verbatim>\<open>signalHistoryEntry\<close> (fields \<^verbatim>\<open>x\<close>, \<^verbatim>\<open>y\<close>, \<^verbatim>\<open>sig\<close>).\<close>

record signalHistoryEntry =
  e_x :: int
  e_y :: int
  e_sig :: SignalAttributes

definition zeroEntry :: signalHistoryEntry where
  "zeroEntry = \<lparr>e_x = 0, e_y = 0, e_sig = noSignal\<rparr>"

text \<open>
  A Go slice is a view of a backing array: the address of the array, a length and a
  capacity. The arrays themselves live in the store of the \<open>world\<close> below. The nil slice
  has length and capacity zero.
\<close>

record slice =
  s_base :: nat
  s_len :: nat
  s_cap :: nat

definition nilSlice :: slice where
  "nilSlice = \<lparr>s_base = 0, s_len = 0, s_cap = 0\<rparr>"

text \<open>
  \<^verbatim>\<open>state\<close>: the television state proper. The fields \<^verbatim>\<open>top\<close> and \<^verbatim>\<open>bottom\<close> of the source
  are \<open>top_sl\<close> and \<open>bottom_sl\<close> here.
\<close>

record state =
  spec :: Spec
  auto :: bool
  horizPos :: int
  frameNum :: int
  scanline :: int
  syncedFrameNum :: int
  syncedFrame :: bool
  lastSignal :: SignalAttributes
  vsyncCount :: int
  top_sl :: int
  bottom_sl :: int
  signalHistory :: slice
  signalHistoryIdx :: int

text \<open>The zero value \<^verbatim>\<open>state{}\<close>.\<close>

definition zeroState :: state where
  "zeroState = \<lparr>spec = zeroSpec, auto = False, horizPos = 0, frameNum = 0, scanline = 0,
     syncedFrameNum = 0, syncedFrame = False, lastSignal = noSignal, vsyncCount = 0,
     top_sl = 0, bottom_sl = 0, signalHistory = nilSlice, signalHistoryIdx = 0\<rparr>"

text \<open>
  The collaborators (pixel renderers, pixel refreshers, frame triggers, audio mixers) are
  interfaces implemented outside the television. A collaborator is named by a number; the
  calls made to the collaborators are logged in order, and whether a call returns an
  error is decided by the environment from the log so far.
\<close>

datatype call =
    Resize Spec int int
  | NewFrame int bool
  | NewScanline int
  | SetPixel int int nat nat nat bool
  | SetAudio nat
  | Refresh bool
  | RefreshPixel int int nat nat nat bool bool

type_synonym event = "nat \<times> call"

datatype error =
    UnsupportedSpec string
  | UnhandledStateRequest int
  | CollaboratorError event
  | PanicMakeSlice
  | PanicIndex

definition isPanic :: "error \<Rightarrow> bool" where
  "isPanic e = (e = PanicMakeSlice \<or> e = PanicIndex)"

text \<open>
  The environment collects what the television uses and the sources do not contain.
  \<^item> \<open>SpecNTSC\<close>, \<open>SpecPAL\<close>: the specification table;
  \<^item> \<open>getColor\<close>: the palette lookup of a specification;
  \<^item> \<open>ToUpper\<close>: \<^verbatim>\<open>strings.ToUpper\<close>;
  \<^item> \<open>fails\<close>: whether a call to a collaborator returns an error, given the log so far;
  \<^item> \<open>growslice\<close>: the capacity the Go runtime chooses when \<^verbatim>\<open>append\<close> outgrows an array;
  \<^item> the resizer.

  Modelled from the spec: the resizer (the \<^verbatim>\<open>resizer\<close> interface and its implementation
  \<^verbatim>\<open>simpleResizer\<close>) is missing from the sources. Following section 4.6 of the
  specification, it observes every event and tracks the candidate top and bottom of the
  picture in a state of its own (\<open>'z\<close>), independently of the main state machine;
  \<^verbatim>\<open>commit\<close> may carry a pending geometry over to the television state, and the change is
  then propagated to the renderers by a \<^verbatim>\<open>Resize\<close> notification, whose error \<^verbatim>\<open>commit\<close>
  returns.
\<close>

record 'z env =
  SpecNTSC :: Spec
  SpecPAL :: Spec
  getColor :: "Spec \<Rightarrow> int \<Rightarrow> nat \<times> nat \<times> nat"
  ToUpper :: "string \<Rightarrow> string"
  fails :: "event list \<Rightarrow> event \<Rightarrow> bool"
  growslice :: "nat \<Rightarrow> nat"
  rz_init :: 'z
  rz_examine :: "'z \<Rightarrow> state \<Rightarrow> SignalAttributes \<Rightarrow> 'z"
  rz_commit :: "'z \<Rightarrow> state \<Rightarrow> 'z \<times> (int \<times> int) option"
  rz_prepare :: "'z \<Rightarrow> state \<Rightarrow> 'z"

text \<open>
  The world: the fields of the \<^verbatim>\<open>reference\<close> struct (\<open>reqSpecID\<close> to \<open>state_ptr\<close>, the
  last one being the pointer \<^verbatim>\<open>tv.state\<close>), the store (state objects and backing arrays
  by address, with the next free address) and the log of calls to collaborators. The
  frame-rate limiter only sleeps and is left out.
\<close>

record 'z world =
  reqSpecID :: string
  resizer :: 'z
  renderers :: "nat list"
  refreshers :: "nat list"
  frameTriggers :: "nat list"
  mixers :: "nat list"
  state_ptr :: nat
  states :: "nat \<Rightarrow> state"
  arrays :: "nat \<Rightarrow> signalHistoryEntry list"
  nxt :: nat
  trace :: "event list"

text \<open>Constants of the package. \<^verbatim>\<open>excessScanlinesNTSC\<close>, \<^verbatim>\<open>leadingFrames\<close> and
  \<^verbatim>\<open>stabilityThreshold\<close> are in the source.

  Modelled from the spec: \<^verbatim>\<open>HorizClksScanline\<close> is declared in a file that is missing;
  the specification gives 228 clocks per scanline.\<close>

definition excessScanlinesNTSC :: int where "excessScanlinesNTSC = 40"
definition leadingFrames :: int where "leadingFrames = 5"
definition stabilityThreshold :: int where "stabilityThreshold = 20"
definition HorizClksScanline :: int where "HorizClksScanline = 228"

text \<open>Modelled from the spec: \<^verbatim>\<open>HorizClksHBlank\<close> is declared in a file that is missing;
  the sources count the horizontal position from -68.\<close>

definition HorizClksHBlank :: int where "HorizClksHBlank = 68"

subsection \<open>Access to the live state object\<close>

definition cur :: "'z world \<Rightarrow> state" where
  "cur w = states w (state_ptr w)"

definition modst :: "(state \<Rightarrow> state) \<Rightarrow> 'z world \<Rightarrow> 'z world" where
  "modst f w = w\<lparr>states := (states w)(state_ptr w := f (cur w))\<rparr>"

text \<open>A loop \<^verbatim>\<open>for f := range cs { err := cs[f].M(...); if err != nil { return err } }\<close>:
  the call goes to each collaborator in turn and stops at the first error.\<close>

fun fanout :: "'z env \<Rightarrow> nat list \<Rightarrow> call \<Rightarrow> event list \<Rightarrow> error option \<times> event list" where
  "fanout env [] c t = (None, t)"
| "fanout env (r # rs) c t =
     (if fails env t (r, c) then (Some (CollaboratorError (r, c)), t @ [(r, c)])
      else fanout env rs c (t @ [(r, c)]))"

text \<open>A loop over collaborators whose method returns nothing.\<close>

definition notify :: "nat list \<Rightarrow> call \<Rightarrow> event list \<Rightarrow> event list" where
  "notify rs c t = t @ map (\<lambda>r. (r, c)) rs"

subsection \<open>Slices in the store\<close>

definition alloc_array :: "signalHistoryEntry list \<Rightarrow> 'z world \<Rightarrow> nat \<times> 'z world" where
  "alloc_array xs w = (nxt w, w\<lparr>arrays := (arrays w)(nxt w := xs), nxt := Suc (nxt w)\<rparr>)"

text \<open>The elements a slice shows.\<close>

definition contents :: "'z world \<Rightarrow> slice \<Rightarrow> signalHistoryEntry list" where
  "contents w h = take (s_len h) (arrays w (s_base h))"

text \<open>\<^verbatim>\<open>tv.state.signalHistory = append(tv.state.signalHistory, e)\<close>: in place when the
  backing array has room, into a new and larger array otherwise.\<close>

definition appendHistory :: "'z env \<Rightarrow> signalHistoryEntry \<Rightarrow> 'z world \<Rightarrow> 'z world" where
  "appendHistory env e w =
    (let h = signalHistory (cur w) in
     if s_len h < s_cap h then
       modst (\<lambda>s. s\<lparr>signalHistory := h\<lparr>s_len := Suc (s_len h)\<rparr>\<rparr>)
         (w\<lparr>arrays := (arrays w)(s_base h := (arrays w (s_base h))[s_len h := e])\<rparr>)
     else
       let c = max (Suc (s_len h)) (growslice env (s_cap h));
           (a, w1) = alloc_array
                      (take (s_len h) (arrays w (s_base h)) @ e # replicate (c - Suc (s_len h)) zeroEntry) w
       in modst (\<lambda>s. s\<lparr>signalHistory := \<lparr>s_base = a, s_len = Suc (s_len h), s_cap = c\<rparr>\<rparr>) w1)"

subsection \<open>The reference television\<close>

text \<open>\<^verbatim>\<open>IsStable\<close> (lines 416-418).\<close>

definition IsStable :: "'z world \<Rightarrow> bool" where
  "IsStable w = (stabilityThreshold \<le> syncedFrameNum (cur w))"

text \<open>\<^verbatim>\<open>GetState\<close> (lines 426-437); the requests are \<^verbatim>\<open>iota\<close> constants of type
  \<^verbatim>\<open>StateReq\<close>, an \<^verbatim>\<open>int\<close>.\<close>

definition ReqFramenum :: int where "ReqFramenum = 0"
definition ReqScanline :: int where "ReqScanline = 1"
definition ReqHorizPos :: int where "ReqHorizPos = 2"

definition GetState :: "int \<Rightarrow> 'z world \<Rightarrow> int \<times> error option" where
  "GetState request w =
    (if request = ReqFramenum then (frameNum (cur w), None)
     else if request = ReqScanline then (scanline (cur w), None)
     else if request = ReqHorizPos then (horizPos (cur w) - HorizClksHBlank, None)
     else (0, Some (UnhandledStateRequest request)))"

text \<open>\<^verbatim>\<open>SetSpec\<close> (lines 440-472). The assignments of the \<^verbatim>\<open>switch\<close> and of lines 455-456
  are \<open>selectSpec\<close>, for an identifier that one of the three cases takes. \<^verbatim>\<open>make\<close> panics
  on a negative length.\<close>

definition selectSpec :: "'z env \<Rightarrow> string \<Rightarrow> state \<Rightarrow> state" where
  "selectSpec env u s =
    (let s1 = (if u = ''NTSC'' then s\<lparr>spec := SpecNTSC env, auto := False\<rparr>
               else if u = ''PAL'' then s\<lparr>spec := SpecPAL env, auto := False\<rparr>
               else s\<lparr>spec := SpecNTSC env, auto := True\<rparr>)
     in s1\<lparr>top_sl := ScanlineTop (spec s1), bottom_sl := ScanlineBottom (spec s1)\<rparr>)"

definition SetSpec :: "'z env \<Rightarrow> string \<Rightarrow> 'z world \<Rightarrow> error option \<times> 'z world" where
  "SetSpec env sp w =
    (let u = ToUpper env sp in
     if u \<noteq> ''NTSC'' \<and> u \<noteq> ''PAL'' \<and> u \<noteq> ''AUTO'' then (Some (UnsupportedSpec sp), w)
     else
       let w1 = modst (selectSpec env u) w;
           w2 = w1\<lparr>resizer := rz_prepare env (resizer w1) (cur w1)\<rparr>;
           s = cur w2;
           (err, t) = fanout env (renderers w2)
                        (Resize (spec s) (top_sl s) (bottom_sl s - top_sl s)) (trace w2);
           w3 = w2\<lparr>trace := t\<rparr>
       in case err of
            Some e \<Rightarrow> (Some e, w3)
          | None \<Rightarrow>
              let n = HorizClksScanline * (bottom_sl s - top_sl s) in
              if n < 0 then (Some PanicMakeSlice, w3)
              else
                let (a, w4) = alloc_array (replicate (nat n) zeroEntry) w3
                in (None, modst (\<lambda>s. s\<lparr>signalHistory := \<lparr>s_base = a, s_len = nat n, s_cap = nat n\<rparr>,
                                         signalHistoryIdx := 0\<rparr>) w4))"

text \<open>\<^verbatim>\<open>newScanline\<close> (lines 362-371).\<close>

definition newScanline :: "'z env \<Rightarrow> 'z world \<Rightarrow> error option \<times> 'z world" where
  "newScanline env w =
    (let (err, t) = fanout env (renderers w) (NewScanline (scanline (cur w))) (trace w)
     in (err, w\<lparr>trace := t\<rparr>))"

text \<open>The specification change of \<^verbatim>\<open>newFrame\<close> (lines 380-387). The error of \<^verbatim>\<open>SetSpec\<close>
  is dropped (\<^verbatim>\<open>_ = tv.SetSpec("PAL")\<close>); a panic is not an error value and goes on.\<close>

definition specChange :: "'z env \<Rightarrow> 'z world \<Rightarrow> error option \<times> 'z world" where
  "specChange env w =
    (if leadingFrames < syncedFrameNum (cur w) \<and> syncedFrameNum (cur w) < stabilityThreshold then
       if auto (cur w) \<and> \<not> syncedFrame (cur w) \<and> excessScanlinesNTSC < scanline (cur w) then
         if ID (spec (cur w)) = ID (SpecNTSC env) then
           (case SetSpec env ''PAL'' w of
              (Some e, w') \<Rightarrow> if isPanic e then (Some e, w') else (None, w')
            | (None, w') \<Rightarrow> (None, w'))
         else (None, w)
       else (None, w)
     else (None, w))"

text \<open>\<^verbatim>\<open>tv.resizer.commit(tv)\<close> (line 390), with the resizer of the environment.\<close>

definition commit :: "'z env \<Rightarrow> 'z world \<Rightarrow> error option \<times> 'z world" where
  "commit env w =
    (case rz_commit env (resizer w) (cur w) of
       (z, None) \<Rightarrow> (None, w\<lparr>resizer := z\<rparr>)
     | (z, Some (t, b)) \<Rightarrow>
         let w1 = modst (\<lambda>s. s\<lparr>top_sl := t, bottom_sl := b\<rparr>) (w\<lparr>resizer := z\<rparr>);
             (err, tr) = fanout env (renderers w1)
                           (Resize (spec (cur w1)) (top_sl (cur w1)) (bottom_sl (cur w1) - top_sl (cur w1)))
                           (trace w1)
         in (err, w1\<lparr>trace := tr\<rparr>))"

text \<open>\<^verbatim>\<open>newFrame\<close> (lines 373-413); its lines 375-377 first.\<close>

definition countSyncedFrame :: "'z world \<Rightarrow> 'z world" where
  "countSyncedFrame w =
    (if syncedFrame (cur w) then modst (\<lambda>s. s\<lparr>syncedFrameNum := syncedFrameNum s + 1\<rparr>) w else w)"

definition newFrame :: "'z env \<Rightarrow> bool \<Rightarrow> 'z world \<Rightarrow> error option \<times> 'z world" where
  "newFrame env synced w =
    (let w1 = countSyncedFrame w
     in case specChange env w1 of
          (Some e, w2) \<Rightarrow> (Some e, w2)
        | (None, w2) \<Rightarrow>
           (case commit env w2 of
              (Some e, w3) \<Rightarrow> (Some e, w3)
            | (None, w3) \<Rightarrow>
                let w4 = modst (\<lambda>s. s\<lparr>frameNum := frameNum s + 1, scanline := 0\<rparr>) w3;
                    w5 = w4\<lparr>resizer := rz_prepare env (resizer w4) (cur w4)\<rparr>;
                    w6 = modst (\<lambda>s. s\<lparr>syncedFrame := synced\<rparr>) w5;
                    (err, t) = fanout env (frameTriggers w6)
                                 (NewFrame (frameNum (cur w6)) (IsStable w6)) (trace w6);
                    w7 = w6\<lparr>trace := t\<rparr>
                in case err of
                     Some e \<Rightarrow> (Some e, w7)
                   | None \<Rightarrow> (None, modst (\<lambda>s. s\<lparr>signalHistoryIdx := 0\<rparr>) w7)))"

text \<open>\<^verbatim>\<open>Signal\<close> (lines 254-360), block by block.\<close>

text \<open>Lines 256-263: the audio goes to the mixers first.\<close>

definition Signal_audio :: "'z env \<Rightarrow> SignalAttributes \<Rightarrow> 'z world \<Rightarrow> error option \<times> 'z world" where
  "Signal_audio env sig w =
    (if AudioUpdate sig then
       let (err, t) = fanout env (mixers w) (SetAudio (AudioData sig)) (trace w)
       in (err, w\<lparr>trace := t\<rparr>)
     else (None, w))"

text \<open>Line 266.\<close>

definition Signal_examine :: "'z env \<Rightarrow> SignalAttributes \<Rightarrow> 'z world \<Rightarrow> 'z world" where
  "Signal_examine env sig w = w\<lparr>resizer := rz_examine env (resizer w) (cur w) sig\<rparr>"

text \<open>Lines 269-298: the colour clock, the end of the scanline, the natural flyback.\<close>

definition Signal_clock :: "'z env \<Rightarrow> 'z world \<Rightarrow> error option \<times> 'z world" where
  "Signal_clock env w =
    (let w1 = modst (\<lambda>s. s\<lparr>horizPos := horizPos s + 1\<rparr>) w in
     if HorizClksScanline \<le> horizPos (cur w1) then
       let w2 = modst (\<lambda>s. s\<lparr>horizPos := 0\<rparr>) w1;
           w3 = modst (\<lambda>s. s\<lparr>scanline := scanline s + 1\<rparr>) w2
       in if ScanlinesTotal (spec (cur w3)) < scanline (cur w3)
          then newFrame env False w3
          else newScanline env w3
     else (None, w1))"

text \<open>Lines 303-312: the edges of VSYNC.\<close>

definition Signal_vsync :: "'z env \<Rightarrow> SignalAttributes \<Rightarrow> 'z world \<Rightarrow> error option \<times> 'z world" where
  "Signal_vsync env sig w =
    (if VSync sig \<and> \<not> VSync (lastSignal (cur w)) then
       (None, modst (\<lambda>s. s\<lparr>vsyncCount := 0\<rparr>) w)
     else if \<not> VSync sig \<and> VSync (lastSignal (cur w)) then
       (if 0 < vsyncCount (cur w) then newFrame env True w else (None, w))
     else (None, w))"

text \<open>Lines 319-329: the edges of HSYNC.\<close>

definition Signal_hsync :: "SignalAttributes \<Rightarrow> 'z world \<Rightarrow> 'z world" where
  "Signal_hsync sig w =
    (let w1 = (if HSync sig \<and> \<not> HSync (lastSignal (cur w)) then
                 let w' = modst (\<lambda>s. s\<lparr>horizPos := 16\<rparr>) w in
                 if VSync sig \<or> VSync (lastSignal (cur w'))
                 then modst (\<lambda>s. s\<lparr>vsyncCount := vsyncCount s + 1\<rparr>) w' else w'
               else w)
     in if \<not> HSync sig \<and> HSync (lastSignal (cur w1))
        then modst (\<lambda>s. s\<lparr>horizPos := 36\<rparr>) w1 else w1)"

text \<open>Lines 334-341: the pixel goes to the renderers.\<close>

definition Signal_pixel :: "'z env \<Rightarrow> SignalAttributes \<Rightarrow> 'z world \<Rightarrow> error option \<times> 'z world" where
  "Signal_pixel env sig w =
    (let (r, g, b) = getColor env (spec (cur w)) (Pixel sig);
         (err, t) = fanout env (renderers w)
                      (SetPixel (horizPos (cur w)) (scanline (cur w)) r g b (VBlank sig)) (trace w)
     in (err, w\<lparr>trace := t\<rparr>))"

text \<open>Lines 344-357: the signal is remembered and written to the history. An index
  expression panics when the index is out of range.\<close>

definition Signal_history :: "'z env \<Rightarrow> SignalAttributes \<Rightarrow> 'z world \<Rightarrow> error option \<times> 'z world" where
  "Signal_history env sig w =
    (let w1 = modst (\<lambda>s. s\<lparr>lastSignal := sig\<rparr>) w;
         e = \<lparr>e_x = horizPos (cur w1), e_y = scanline (cur w1), e_sig = sig\<rparr>;
         i = signalHistoryIdx (cur w1);
         h = signalHistory (cur w1)
     in if int (s_len h) \<le> i then
          (None, modst (\<lambda>s. s\<lparr>signalHistoryIdx := signalHistoryIdx s + 1\<rparr>) (appendHistory env e w1))
        else if i < 0 then (Some PanicIndex, w1)
        else
          (None, modst (\<lambda>s. s\<lparr>signalHistoryIdx := signalHistoryIdx s + 1\<rparr>)
                   (w1\<lparr>arrays := (arrays w1)(s_base h := (arrays w1 (s_base h))[nat i := e])\<rparr>)))"

definition Signal :: "'z env \<Rightarrow> SignalAttributes \<Rightarrow> 'z world \<Rightarrow> error option \<times> 'z world" where
  "Signal env sig w =
    (case Signal_audio env sig w of
       (Some e, w1) \<Rightarrow> (Some e, w1)
     | (None, w1) \<Rightarrow>
        (case Signal_clock env (Signal_examine env sig w1) of
           (Some e, w2) \<Rightarrow> (Some e, w2)
         | (None, w2) \<Rightarrow>
            (case Signal_vsync env sig w2 of
               (Some e, w3) \<Rightarrow> (Some e, w3)
             | (None, w3) \<Rightarrow>
                (case Signal_pixel env sig (Signal_hsync sig w3) of
                   (Some e, w4) \<Rightarrow> (Some e, w4)
                 | (None, w4) \<Rightarrow> Signal_history env sig w4))))"

text \<open>\<^verbatim>\<open>Reset\<close> (lines 217-234).\<close>

definition Reset :: "'z env \<Rightarrow> 'z world \<Rightarrow> error option \<times> 'z world" where
  "Reset env w =
    (case SetSpec env (reqSpecID w) w of
       (Some e, w1) \<Rightarrow> (Some e, w1)
     | (None, w1) \<Rightarrow>
         (None, modst (\<lambda>s. s\<lparr>horizPos := 0, frameNum := 0, scanline := 0, syncedFrameNum := 0,
                              vsyncCount := 0, lastSignal := noSignal\<rparr>) w1))"

text \<open>\<^verbatim>\<open>NewReference\<close> (lines 134-155). Address 0 is kept for nil.\<close>

definition newWorld :: "'z env \<Rightarrow> string \<Rightarrow> 'z world" where
  "newWorld env sp =
    \<lparr>reqSpecID = ToUpper env sp, resizer = rz_init env, renderers = [], refreshers = [],
     frameTriggers = [], mixers = [], state_ptr = 1, states = (\<lambda>_. zeroState),
     arrays = (\<lambda>_. []), nxt = 2, trace = []\<rparr>"

definition NewReference :: "'z env \<Rightarrow> string \<Rightarrow> error + 'z world" where
  "NewReference env sp =
    (case SetSpec env sp (newWorld env sp) of
       (Some e, w) \<Rightarrow> Inl e
     | (None, w) \<Rightarrow> Inr (w\<lparr>renderers := []\<rparr>))"

text \<open>\<^verbatim>\<open>AddPixelRenderer\<close>, \<^verbatim>\<open>AddPixelRefresher\<close>, \<^verbatim>\<open>AddFrameTrigger\<close>, \<^verbatim>\<open>AddAudioMixer\<close>
  (lines 196-214).\<close>

definition AddPixelRenderer :: "nat \<Rightarrow> 'z world \<Rightarrow> 'z world" where
  "AddPixelRenderer r w = w\<lparr>renderers := renderers w @ [r], frameTriggers := frameTriggers w @ [r]\<rparr>"

definition AddPixelRefresher :: "nat \<Rightarrow> 'z world \<Rightarrow> 'z world" where
  "AddPixelRefresher r w = w\<lparr>refreshers := refreshers w @ [r]\<rparr>"

definition AddFrameTrigger :: "nat \<Rightarrow> 'z world \<Rightarrow> 'z world" where
  "AddFrameTrigger f w = w\<lparr>frameTriggers := frameTriggers w @ [f]\<rparr>"

definition AddAudioMixer :: "nat \<Rightarrow> 'z world \<Rightarrow> 'z world" where
  "AddAudioMixer m w = w\<lparr>mixers := mixers w @ [m]\<rparr>"

text \<open>\<^verbatim>\<open>Snapshot\<close> (lines 164-169): the struct is copied into a new object, and its history
  into a new array of the length of the live slice. The result is the address of the
  new object.\<close>

definition Snapshot :: "'z world \<Rightarrow> nat \<times> 'z world" where
  "Snapshot w =
    (let s = cur w;
         h = signalHistory s;
         (a, w1) = alloc_array (replicate (s_len h) zeroEntry) w;
         w2 = w1\<lparr>arrays := (arrays w1)(a := take (s_len h) (arrays w1 (s_base h)) @ drop (s_len h) (arrays w1 a))\<rparr>;
         p = nxt w2
     in (p, w2\<lparr>states := (states w2)(p := s\<lparr>signalHistory := \<lparr>s_base = a, s_len = s_len h, s_cap = s_len h\<rparr>\<rparr>),
               nxt := Suc p\<rparr>))"

text \<open>\<^verbatim>\<open>RestoreSnapshot\<close> (lines 172-193). The argument is nil or the address of a state
  object; the methods of a refresher return nothing.\<close>

definition refreshPixels :: "'z env \<Rightarrow> 'z world \<Rightarrow> event list \<Rightarrow> event list" where
  "refreshPixels env w t =
    fold (\<lambda>(i, e) t'.
            let (r, g, b) = getColor env (spec (cur w)) (Pixel (e_sig e))
            in notify (refreshers w)
                 (RefreshPixel (e_x e) (e_y e) r g b (VBlank (e_sig e)) (signalHistoryIdx (cur w) \<le> int i)) t')
         (enumerate 0 (contents w (signalHistory (cur w)))) t"

definition RestoreSnapshot :: "'z env \<Rightarrow> nat option \<Rightarrow> 'z world \<Rightarrow> 'z world" where
  "RestoreSnapshot env snap w =
    (case snap of
       None \<Rightarrow> w
     | Some p \<Rightarrow>
         let w1 = w\<lparr>state_ptr := p\<rparr>;
             t1 = notify (refreshers w1) (Refresh True) (trace w1);
             t2 = refreshPixels env w1 t1;
             t3 = notify (refreshers w1) (Refresh False) t2
         in w1\<lparr>trace := t3\<rparr>)"

text \<open>A run of the television: the signals are sent one after the other, and the run
  ends at the first call that returns an error.\<close>

fun run :: "'z env \<Rightarrow> SignalAttributes list \<Rightarrow> 'z world \<Rightarrow> error option \<times> 'z world" where
  "run env [] w = (None, w)"
| "run env (sig # sigs) w =
     (case Signal env sig w of
        (Some e, w') \<Rightarrow> (Some e, w')
      | (None, w') \<Rightarrow> run env sigs w')"

subsection \<open>The headless television: state requests\<close>

text \<open>
  \<^verbatim>\<open>HeadlessTV.RequestTVState\<close> (an older television of the repository, lines 258-269 of
  its file). \<^verbatim>\<open>TVState\<close> has the fields that \<^verbatim>\<open>InitHeadlessTV\<close> fills in; the type of the
  requests, \<^verbatim>\<open>TVStateReq\<close>, and its three constants are declared in a file that is
  missing and are parameters here. The result is the requested state object (nil on an
  error) and the error.
\<close>

record TVState =
  label :: string
  shortLabel :: string
  value_f :: int
  valueFormat :: string

record HeadlessTV =
  HorizPos :: TVState
  FrameNum :: TVState
  Scanline :: TVState

record 'q requests =
  hReqFramenum :: 'q
  hReqScanline :: 'q
  hReqHorizPos :: 'q

datatype 'q gopherError = UnknownTVRequest 'q

definition RequestTVState :: "'q requests \<Rightarrow> 'q \<Rightarrow> HeadlessTV \<Rightarrow> TVState option \<times> 'q gopherError option" where
  "RequestTVState rq request tv =
    (if request = hReqFramenum rq then (Some (FrameNum tv), None)
     else if request = hReqScanline rq then (Some (Scanline tv), None)
     else if request = hReqHorizPos rq then (Some (HorizPos tv), None)
     else (None, Some (UnknownTVRequest request)))"

subsection \<open>The TIA\<close>

text \<open>
  Modelled from the spec: the polycounter (package \<^verbatim>\<open>polycounter\<close>) is missing from the
  sources. Following section 4.1 of the specification, it is a counter with a
  configurable reset point: a tick advances the count by one, wrapping to zero and
  reporting so when the count has reached the reset point; a match reports whether the
  count equals a given number; a reset puts the count to zero.
\<close>

record polycounter =
  Count :: nat
  ResetPoint :: nat

definition MatchEnd :: "polycounter \<Rightarrow> nat \<Rightarrow> bool" where
  "MatchEnd pc n = (Count pc = n)"

definition Tick :: "polycounter \<Rightarrow> bool \<times> polycounter" where
  "Tick pc = (if Count pc = ResetPoint pc then (True, pc\<lparr>Count := 0\<rparr>)
              else (False, pc\<lparr>Count := Count pc + 1\<rparr>))"

definition ResetClock :: "polycounter \<Rightarrow> polycounter" where
  "ResetClock pc = pc\<lparr>Count := 0\<rparr>"

text \<open>
  Modelled from the spec: the forced-resync unit (type \<^verbatim>\<open>rsync\<close>) is missing from the
  sources. Following section 4.3 of the specification, \<^verbatim>\<open>set\<close> arms a request, and
  \<^verbatim>\<open>tick\<close> consumes the pending request, if any, and reports it.
\<close>

record rsync =
  pending :: bool

definition rsync_set :: "rsync \<Rightarrow> rsync" where
  "rsync_set r = r\<lparr>pending := True\<rparr>"

definition rsync_tick :: "rsync \<Rightarrow> bool \<times> rsync" where
  "rsync_tick r = (pending r, r\<lparr>pending := False\<rparr>)"

text \<open>
  The horizontal-move unit (\<open>'h\<close>), the video sub-system (\<open>'v\<close>), the chip memory
  (\<open>'m\<close>) and the television behind the \<^verbatim>\<open>Television\<close> interface are collaborators of
  \<^verbatim>\<open>StepVideoCycle\<close> whose code is not in the sources: their operations are parameters.
  The television is seen through the signals sent to it, and \<open>tv_fails\<close> says whether
  \<^verbatim>\<open>Signal\<close> returns an error, given the signals sent before. \<open>VideoBlack\<close> is the constant
  \<^verbatim>\<open>television.VideoBlack\<close>.
\<close>

record ('h, 'v, 'm) tia_env =
  hm_isActive :: "'h \<Rightarrow> bool"
  hm_reset :: "'h \<Rightarrow> 'h"
  hm_tick :: "'h \<Rightarrow> (int \<times> bool) \<times> 'h"
  v_NewScanline :: "'v \<Rightarrow> 'v"
  v_TickSpritesForHMOVE :: "int \<Rightarrow> 'v \<Rightarrow> 'v"
  v_TickSprites :: "'v \<Rightarrow> 'v"
  v_TickPlayfield :: "'v \<Rightarrow> 'v"
  v_TickFutures :: "bool \<Rightarrow> 'v \<Rightarrow> 'v"
  v_Pixel :: "'v \<Rightarrow> int \<times> 'v"
  v_SetMemory :: "'v \<Rightarrow> 'm \<Rightarrow> 'm"
  tv_fails :: "SignalAttributes list \<Rightarrow> SignalAttributes \<Rightarrow> bool"
  VideoBlack :: int

text \<open>\<^verbatim>\<open>TIA\<close> (lines 17-43); \<open>tv_sent\<close> holds the signals sent to the television.\<close>

record ('h, 'v, 'm) TIA =
  tv_sent :: "SignalAttributes list"
  mem :: 'm
  colorClock :: polycounter
  motionClock :: bool
  Hmove :: 'h
  rsync_u :: rsync
  vsync :: bool
  vblank :: bool
  hblank :: bool
  hsync :: bool
  wsync :: bool
  Video :: 'v

text \<open>\<^verbatim>\<open>StepVideoCycle\<close> (lines 134-218), block by block.\<close>

text \<open>Lines 139-151: the edges of HBLANK, HSYNC and the colour burst, read off the
  colour clock. The result is \<^verbatim>\<open>cburst\<close>.\<close>

definition Step_clock :: "('h, 'v, 'm) tia_env \<Rightarrow> ('h, 'v, 'm) TIA \<Rightarrow> bool \<times> ('h, 'v, 'm) TIA" where
  "Step_clock env tia =
    (if MatchEnd (colorClock tia) 16 \<and> \<not> hm_isActive env (Hmove tia) then (False, tia\<lparr>hblank := False\<rparr>)
     else if MatchEnd (colorClock tia) 18 \<and> hm_isActive env (Hmove tia) then (False, tia\<lparr>hblank := False\<rparr>)
     else if MatchEnd (colorClock tia) 4 then (False, tia\<lparr>hsync := True\<rparr>)
     else if MatchEnd (colorClock tia) 8 then (False, tia\<lparr>hsync := False\<rparr>)
     else if MatchEnd (colorClock tia) 12 then (True, tia)
     else (False, tia))"

text \<open>Lines 155-159: the motion clock.\<close>

definition Step_motion :: "('h, 'v, 'm) TIA \<Rightarrow> ('h, 'v, 'm) TIA" where
  "Step_motion tia =
    (if MatchEnd (colorClock tia) 15 then tia\<lparr>motionClock := True\<rparr>
     else if MatchEnd (colorClock tia) 56 then tia\<lparr>motionClock := False\<rparr>
     else tia)"

text \<open>Lines 163-177: the new scanline. The result is \<^verbatim>\<open>frontPorch\<close>. The colour clock
  is ticked only when the forced resync has not fired.\<close>

definition Step_newline :: "('h, 'v, 'm) tia_env \<Rightarrow> ('h, 'v, 'm) TIA \<Rightarrow> bool \<times> ('h, 'v, 'm) TIA" where
  "Step_newline env tia =
    (let (fired, r) = rsync_tick (rsync_u tia);
         t = tia\<lparr>rsync_u := r\<rparr>
     in if fired then
          (True, t\<lparr>wsync := False, hblank := True, Hmove := hm_reset env (Hmove t),
                   Video := v_NewScanline env (Video t), colorClock := ResetClock (colorClock t)\<rparr>)
        else
          let (wrapped, cc) = Tick (colorClock t);
              t' = t\<lparr>colorClock := cc\<rparr>
          in if wrapped then
               (True, t'\<lparr>wsync := False, hblank := True, Hmove := hm_reset env (Hmove t'),
                         Video := v_NewScanline env (Video t')\<rparr>)
             else (False, t'))"

text \<open>Lines 180-194: HMOVE clock stuffing, sprites, playfield, scheduled writes.\<close>

definition Step_video :: "('h, 'v, 'm) tia_env \<Rightarrow> ('h, 'v, 'm) TIA \<Rightarrow> ('h, 'v, 'm) TIA" where
  "Step_video env tia =
    (let ((ct, ok), h) = hm_tick env (Hmove tia);
         t1 = tia\<lparr>Hmove := h\<rparr>;
         t2 = (if ok then t1\<lparr>Video := v_TickSpritesForHMOVE env ct (Video t1)\<rparr> else t1);
         t3 = (if \<not> hblank t2 then t2\<lparr>Video := v_TickSprites env (Video t2)\<rparr> else t2)
     in t3\<lparr>Video := v_TickFutures env (motionClock t3) (v_TickPlayfield env (Video t3))\<rparr>)"

text \<open>Lines 197-200: the pixel colour.\<close>

definition Step_pixel :: "('h, 'v, 'm) tia_env \<Rightarrow> ('h, 'v, 'm) TIA \<Rightarrow> int \<times> ('h, 'v, 'm) TIA" where
  "Step_pixel env tia =
    (if \<not> hblank tia then
       let (px, v) = v_Pixel env (Video tia) in (px, tia\<lparr>Video := v\<rparr>)
     else (VideoBlack env, tia))"

text \<open>Lines 203-217: the signal goes to the television; the step panics on an error,
  and otherwise sets the collision registers and returns \<^verbatim>\<open>!tia.wsync\<close>. The result is
  the value returned, or \<open>None\<close> for the panic.\<close>

definition Step_signal ::
  "('h, 'v, 'm) tia_env \<Rightarrow> bool \<Rightarrow> bool \<Rightarrow> int \<Rightarrow> ('h, 'v, 'm) TIA \<Rightarrow> bool option \<times> ('h, 'v, 'm) TIA" where
  "Step_signal env frontPorch cburst pixelColor tia =
    (let sig = \<lparr>VSync = vsync tia, VBlank = vblank tia, FrontPorch = frontPorch, HSync = hsync tia,
                CBurst = cburst, Pixel = pixelColor, AudioUpdate = False, AudioData = 0\<rparr>;
         t = tia\<lparr>tv_sent := tv_sent tia @ [sig]\<rparr>
     in if tv_fails env (tv_sent tia) sig then (None, t)
        else
          let t' = t\<lparr>mem := v_SetMemory env (Video t) (mem t)\<rparr>
          in (Some (\<not> wsync t'), t'))"

definition StepVideoCycle ::
  "('h, 'v, 'm) tia_env \<Rightarrow> ('h, 'v, 'm) TIA \<Rightarrow> bool option \<times> ('h, 'v, 'm) TIA" where
  "StepVideoCycle env tia =
    (let (cburst, t1) = Step_clock env tia;
         (frontPorch, t2) = Step_newline env (Step_motion t1);
         (pixelColor, t3) = Step_pixel env (Step_video env t2)
     in Step_signal env frontPorch cburst pixelColor t3)"

subsection \<open>The television without its collaborators\<close>

text \<open>
  Devices for the proofs. \<open>beam\<close> collects the scalar fields of the state that
  \<^verbatim>\<open>Signal\<close> drives, \<open>core\<close> adds the specification and the auto flag, and \<open>rig\<close>
  collects the fields of the \<^verbatim>\<open>reference\<close> struct that \<^verbatim>\<open>Signal\<close> leaves alone.

  \<open>nextState\<close> is \<^verbatim>\<open>Signal\<close> read as a function on the state alone, for a call that
  returns no error: \<open>clockS\<close> is lines 269-298, \<open>vsyncS\<close> lines 303-312, \<open>hsyncS\<close> lines
  319-329, and \<open>frameS\<close> is \<^verbatim>\<open>newFrame\<close> (lines 373-413), with \<open>switchesToPAL\<close> the
  condition of its lines 380-383. The properties section proves that \<^verbatim>\<open>Signal\<close> acts on
  the core of the state as \<open>nextState\<close> does.
\<close>

definition beam :: "state \<Rightarrow> int \<times> int \<times> int \<times> int \<times> bool \<times> SignalAttributes \<times> int" where
  "beam s = (horizPos s, scanline s, frameNum s, syncedFrameNum s, syncedFrame s, lastSignal s, vsyncCount s)"

definition rig :: "'z world \<Rightarrow> string \<times> nat list \<times> nat list \<times> nat list \<times> nat list \<times> nat" where
  "rig w = (reqSpecID w, renderers w, refreshers w, frameTriggers w, mixers w, state_ptr w)"

definition switchesToPAL :: "'z env \<Rightarrow> state \<Rightarrow> bool" where
  "switchesToPAL env s =
    (leadingFrames < syncedFrameNum s \<and> syncedFrameNum s < stabilityThreshold \<and>
     auto s \<and> \<not> syncedFrame s \<and> excessScanlinesNTSC < scanline s \<and>
     ID (spec s) = ID (SpecNTSC env))"

definition frameS :: "'z env \<Rightarrow> bool \<Rightarrow> state \<Rightarrow> state" where
  "frameS env synced s =
    (let s1 = s\<lparr>syncedFrameNum := syncedFrameNum s + (if syncedFrame s then 1 else 0)\<rparr>;
         s2 = (if switchesToPAL env s1 then s1\<lparr>spec := SpecPAL env, auto := False\<rparr> else s1)
     in s2\<lparr>frameNum := frameNum s2 + 1, scanline := 0, syncedFrame := synced\<rparr>)"

definition clockS :: "'z env \<Rightarrow> state \<Rightarrow> state" where
  "clockS env s =
    (if HorizClksScanline \<le> horizPos s + 1 then
       let s' = s\<lparr>horizPos := 0, scanline := scanline s + 1\<rparr>
       in if ScanlinesTotal (spec s') < scanline s' then frameS env False s' else s'
     else s\<lparr>horizPos := horizPos s + 1\<rparr>)"

definition vsyncS :: "'z env \<Rightarrow> SignalAttributes \<Rightarrow> state \<Rightarrow> state" where
  "vsyncS env sig s =
    (if VSync sig \<and> \<not> VSync (lastSignal s) then s\<lparr>vsyncCount := 0\<rparr>
     else if \<not> VSync sig \<and> VSync (lastSignal s) \<and> 0 < vsyncCount s then frameS env True s
     else s)"

definition hsyncS :: "SignalAttributes \<Rightarrow> state \<Rightarrow> state" where
  "hsyncS sig s =
    (if HSync sig \<and> \<not> HSync (lastSignal s) then
       s\<lparr>horizPos := 16,
         vsyncCount := (if VSync sig \<or> VSync (lastSignal s) then vsyncCount s + 1 else vsyncCount s)\<rparr>
     else if \<not> HSync sig \<and> HSync (lastSignal s) then s\<lparr>horizPos := 36\<rparr>
     else s)"

definition nextState :: "'z env \<Rightarrow> SignalAttributes \<Rightarrow> state \<Rightarrow> state" where
  "nextState env sig s = (hsyncS sig (vsyncS env sig (clockS env s)))\<lparr>lastSignal := sig\<rparr>"

definition core :: "state \<Rightarrow> (int \<times> int \<times> int \<times> int \<times> bool \<times> SignalAttributes \<times> int) \<times> Spec \<times> bool" where
  "core s = (beam s, spec s, auto s)"

text \<open>
  Conditions on a step and on the environment: no collaborator ever fails
  (\<open>neverFails\<close>), or only a \<^verbatim>\<open>Resize\<close> can fail (\<open>failsOnlyResize\<close>); the step ends the
  frame by a natural flyback (\<open>flyS\<close>, the test of lines 276 and 283) or by the falling
  edge of VSYNC (\<open>fallS\<close>, the test of lines 305-306); \<open>noFrames\<close> says that no signal of
  a list ends a frame.
\<close>

definition neverFails :: "'z env \<Rightarrow> bool" where
  "neverFails env = (\<forall>t e. \<not> fails env t e)"

definition isResize :: "call \<Rightarrow> bool" where
  "isResize c = (case c of Resize sp a b \<Rightarrow> True | _ \<Rightarrow> False)"

definition failsOnlyResize :: "'z env \<Rightarrow> bool" where
  "failsOnlyResize env = (\<forall>t r c. fails env t (r, c) \<longrightarrow> isResize c)"

definition flyS :: "state \<Rightarrow> bool" where
  "flyS s = (HorizClksScanline \<le> horizPos s + 1 \<and> ScanlinesTotal (spec s) < scanline s + 1)"

definition fallS :: "SignalAttributes \<Rightarrow> state \<Rightarrow> bool" where
  "fallS sig s = (\<not> VSync sig \<and> VSync (lastSignal s) \<and> 0 < vsyncCount s)"

fun noFrames :: "'z env \<Rightarrow> SignalAttributes list \<Rightarrow> state \<Rightarrow> bool" where
  "noFrames env [] s = True"
| "noFrames env (sig # sigs) s =
     (\<not> flyS s \<and> \<not> fallS sig (clockS env s) \<and> noFrames env sigs (nextState env sig s))"

subsection \<open>Concrete instances\<close>

text \<open>
  Instances of the parameters, to run the definitions on. The upper-casing is the one of
  ASCII; the specification table has the scanline counts of the two standards (262 and
  312 in total); no collaborator fails; the resizer does nothing.
\<close>

definition upperChar :: "char \<Rightarrow> char" where
  "upperChar c =
    (case map_of (zip ''abcdefghijklmnopqrstuvwxyz'' ''ABCDEFGHIJKLMNOPQRSTUVWXYZ'') c of
       Some d \<Rightarrow> d
     | None \<Rightarrow> c)"

definition asciiUpper :: "string \<Rightarrow> string" where
  "asciiUpper s = map upperChar s"

definition stdNTSC :: Spec where
  "stdNTSC = \<lparr>ID = ''NTSC'', ScanlinesTotal = 262, ScanlineTop = 40, ScanlineBottom = 232\<rparr>"

definition stdPAL :: Spec where
  "stdPAL = \<lparr>ID = ''PAL'', ScanlinesTotal = 312, ScanlineTop = 48, ScanlineBottom = 276\<rparr>"

definition plainEnv :: "unit env" where
  "plainEnv =
    \<lparr>SpecNTSC = stdNTSC, SpecPAL = stdPAL, getColor = (\<lambda>_ _. (0, 0, 0)), ToUpper = asciiUpper,
     fails = (\<lambda>_ _. False), growslice = (\<lambda>c. 2 * c), rz_init = (),
     rz_examine = (\<lambda>_ _ _. ()), rz_commit = (\<lambda>_ _. ((), None)), rz_prepare = (\<lambda>_ _. ())\<rparr>"

definition demoRequests :: "string requests" where
  "demoRequests = \<lparr>hReqFramenum = ''FRAME'', hReqScanline = ''SCANLINE'', hReqHorizPos = ''HORIZPOS''\<rparr>"

definition demoHeadlessTV :: HeadlessTV where
  "demoHeadlessTV =
    \<lparr>HorizPos = \<lparr>label = ''Horiz Pos'', shortLabel = ''HP'', value_f = - 68, valueFormat = ''%d''\<rparr>,
     FrameNum = \<lparr>label = ''Frame'', shortLabel = ''FR'', value_f = 0, valueFormat = ''%d''\<rparr>,
     Scanline = \<lparr>label = ''Scanline'', shortLabel = ''SL'', value_f = 0, valueFormat = ''%d''\<rparr>\<rparr>"

text \<open>A TIA whose horizontal-move unit is a flag, with no video and an obliging
  television; the colour clock and the flag are given.\<close>

definition demoTiaEnv :: "(bool, unit, unit) tia_env" where
  "demoTiaEnv =
    \<lparr>hm_isActive = (\<lambda>h. h), hm_reset = (\<lambda>_. False), hm_tick = (\<lambda>h. ((0, h), h)),
     v_NewScanline = (\<lambda>v. v), v_TickSpritesForHMOVE = (\<lambda>_ v. v), v_TickSprites = (\<lambda>v. v),
     v_TickPlayfield = (\<lambda>v. v), v_TickFutures = (\<lambda>_ v. v), v_Pixel = (\<lambda>v. (14, v)),
     v_SetMemory = (\<lambda>_ m. m), tv_fails = (\<lambda>_ _. False), VideoBlack = - 1\<rparr>"

definition demoTia :: "nat \<Rightarrow> bool \<Rightarrow> (bool, unit, unit) TIA" where
  "demoTia n h =
    \<lparr>tv_sent = [], mem = (), colorClock = \<lparr>Count = n, ResetPoint = 56\<rparr>, motionClock = False,
     Hmove = h, rsync_u = \<lparr>pending = False\<rparr>, vsync = False, vblank = False, hblank = True,
     hsync = False, wsync = True, Video = ()\<rparr>"

text \<open>The television that \<^verbatim>\<open>NewReference\<close> returns, and some signals: VSYNC on, VSYNC
  and HSYNC on, HSYNC on; a VSYNC pulse over one HSYNC edge; 21 such pulses.\<close>

definition tvOf :: "'z env \<Rightarrow> string \<Rightarrow> 'z world" where
  "tvOf env sp = (case NewReference env sp of Inr w \<Rightarrow> w | Inl e \<Rightarrow> newWorld env sp)"

definition sigV :: SignalAttributes where "sigV = noSignal\<lparr>VSync := True\<rparr>"

definition sigVH :: SignalAttributes where "sigVH = noSignal\<lparr>VSync := True, HSync := True\<rparr>"

definition sigH :: SignalAttributes where "sigH = noSignal\<lparr>HSync := True\<rparr>"

definition syncPulse :: "SignalAttributes list" where "syncPulse = [sigV, sigVH, noSignal]"

definition stableSigs :: "SignalAttributes list" where
  "stableSigs = concat (replicate 21 syncPulse)"

definition stableTV :: "unit world" where
  "stableTV = snd (run plainEnv stableSigs (tvOf plainEnv ''NTSC''))"

text \<open>The ranges of claim C1.\<close>

definition horizInRange :: "state \<Rightarrow> bool" where
  "horizInRange s = (0 \<le> horizPos s \<and> horizPos s < HorizClksScanline)"

definition inRange :: "state \<Rightarrow> bool" where
  "inRange s = (horizInRange s \<and> 0 \<le> scanline s \<and> scanline s \<le> ScanlinesTotal (spec s))"

text \<open>A call of \<^verbatim>\<open>Signal\<close> that gets as far as the HSYNC handling of line 319: the
  mixers, the flyback handling and the VSYNC handling have returned no error.\<close>

definition reachesHSync :: "'z env \<Rightarrow> SignalAttributes \<Rightarrow> 'z world \<Rightarrow> bool" where
  "reachesHSync env sig w =
    (fst (Signal_audio env sig w) = None \<and>
     fst (Signal_clock env (Signal_examine env sig (snd (Signal_audio env sig w)))) = None \<and>
     fst (Signal_vsync env sig
       (snd (Signal_clock env (Signal_examine env sig (snd (Signal_audio env sig w)))))) = None)"

text \<open>An environment in which every \<^verbatim>\<open>SetAudio\<close> fails, its television with one mixer
  registered, and a signal with an audio update and HSYNC on.\<close>

definition isSetAudio :: "call \<Rightarrow> bool" where
  "isSetAudio c = (case c of SetAudio d \<Rightarrow> True | _ \<Rightarrow> False)"

definition mutedEnv :: "unit env" where
  "mutedEnv = plainEnv\<lparr>fails := (\<lambda>t e. isSetAudio (snd e))\<rparr>"

definition mutedTV :: "unit world" where
  "mutedTV = AddAudioMixer 0 (tvOf mutedEnv ''NTSC'')"

definition sigHA :: SignalAttributes where
  "sigHA = noSignal\<lparr>HSync := True, AudioUpdate := True\<rparr>"

text \<open>
  The lifetime of a television: the calls of the \<^verbatim>\<open>Television\<close> interface that change or
  read the state, made one after the other, whatever each of them returns. The methods of
  the interface that are left out (\<^verbatim>\<open>End\<close>, \<^verbatim>\<open>GetLastSignal\<close>, \<^verbatim>\<open>GetReqSpecID\<close>, \<^verbatim>\<open>GetSpec\<close>,
  \<^verbatim>\<open>String\<close> and the methods of the frame rate) assign to no field of the state.
\<close>

datatype request =
    DoSignal SignalAttributes
  | DoSetSpec string
  | DoReset
  | DoAddPixelRenderer nat
  | DoAddPixelRefresher nat
  | DoAddFrameTrigger nat
  | DoAddAudioMixer nat
  | DoSnapshot
  | DoRestoreSnapshot "nat option"
  | DoGetState int
  | DoIsStable

definition perform :: "'z env \<Rightarrow> request \<Rightarrow> 'z world \<Rightarrow> 'z world" where
  "perform env rq w =
    (case rq of
       DoSignal sig \<Rightarrow> snd (Signal env sig w)
     | DoSetSpec sp \<Rightarrow> snd (SetSpec env sp w)
     | DoReset \<Rightarrow> snd (Reset env w)
     | DoAddPixelRenderer r \<Rightarrow> AddPixelRenderer r w
     | DoAddPixelRefresher r \<Rightarrow> AddPixelRefresher r w
     | DoAddFrameTrigger f \<Rightarrow> AddFrameTrigger f w
     | DoAddAudioMixer m \<Rightarrow> AddAudioMixer m w
     | DoSnapshot \<Rightarrow> snd (Snapshot w)
     | DoRestoreSnapshot snap \<Rightarrow> RestoreSnapshot env snap w
     | DoGetState request \<Rightarrow> w
     | DoIsStable \<Rightarrow> w)"

definition lifetime :: "'z env \<Rightarrow> request list \<Rightarrow> 'z world \<Rightarrow> 'z world" where
  "lifetime env rqs w = fold (perform env) rqs w"

text \<open>The two calls that replace the synced-frame counter: a \<^verbatim>\<open>Reset\<close> that gets past its
  \<^verbatim>\<open>SetSpec\<close> (line 229) and a \<^verbatim>\<open>RestoreSnapshot\<close> of a snapshot that is not nil (line 177).
  \<open>noReplace\<close> says that no call of a lifetime is one of them.\<close>

definition replaces :: "'z env \<Rightarrow> request \<Rightarrow> 'z world \<Rightarrow> bool" where
  "replaces env rq w =
    (case rq of
       DoReset \<Rightarrow> fst (Reset env w) = None
     | DoRestoreSnapshot (Some p) \<Rightarrow> True
     | _ \<Rightarrow> False)"

fun noReplace :: "'z env \<Rightarrow> request list \<Rightarrow> 'z world \<Rightarrow> bool" where
  "noReplace env [] w = True"
| "noReplace env (rq # rqs) w = (\<not> replaces env rq w \<and> noReplace env rqs (perform env rq w))"

text \<open>Some calls for a television that is stable.\<close>

definition laterCalls :: "request list" where
  "laterCalls =
    [DoSignal noSignal, DoSetSpec ''PAL'', DoSetSpec ''SECAM'', DoAddPixelRenderer 0,
     DoAddPixelRefresher 1, DoAddFrameTrigger 2, DoAddAudioMixer 3, DoSnapshot,
     DoRestoreSnapshot None, DoGetState 7, DoIsStable, DoSignal sigV, DoSignal noSignal]"

text \<open>All the signals of a list are sent, one after the other, whether a call returns
  an error or not.\<close>

definition runAll :: "'z env \<Rightarrow> SignalAttributes list \<Rightarrow> 'z world \<Rightarrow> 'z world" where
  "runAll env sigs w = fold (\<lambda>sig w'. snd (Signal env sig w')) sigs w"

text \<open>The specification of a state is one of the two of the table.\<close>

definition inTable :: "'z env \<Rightarrow> state \<Rightarrow> bool" where
  "inTable env s = (spec s = SpecNTSC env \<or> spec s = SpecPAL env)"

text \<open>
  A call of \<^verbatim>\<open>Signal\<close> whose natural flyback is cut short: the call gets to line 283 at
  the end of the screen, and \<^verbatim>\<open>newFrame\<close> returns an error before it puts the scanline
  back to zero at line 397. The errors that \<^verbatim>\<open>newFrame\<close> returns after that line are those
  of the frame triggers (\<open>isFrameTriggerError\<close>). \<open>neverCut\<close> says that no call of a list
  of signals is cut in this way.
\<close>

definition isFrameTriggerError :: "error \<Rightarrow> bool" where
  "isFrameTriggerError e =
    (case e of CollaboratorError ev \<Rightarrow> (case snd ev of NewFrame n b \<Rightarrow> True | _ \<Rightarrow> False)
     | _ \<Rightarrow> False)"

definition cutFlyback :: "'z env \<Rightarrow> SignalAttributes \<Rightarrow> 'z world \<Rightarrow> bool" where
  "cutFlyback env sig w =
    (fst (Signal_audio env sig w) = None \<and> flyS (cur w) \<and>
     (case fst (Signal_clock env (Signal_examine env sig (snd (Signal_audio env sig w)))) of
        None \<Rightarrow> False
      | Some e \<Rightarrow> \<not> isFrameTriggerError e))"

fun neverCut :: "'z env \<Rightarrow> SignalAttributes list \<Rightarrow> 'z world \<Rightarrow> bool" where
  "neverCut env [] w = True"
| "neverCut env (sig # sigs) w = (\<not> cutFlyback env sig w \<and> neverCut env sigs (snd (Signal env sig w)))"

section \<open>Properties\<close>

subsection \<open>The television: the blocks of \<^verbatim>\<open>Signal\<close>\<close>

lemma cur_modst [simp]: "cur (modst f w) = f (cur w)"
  by (simp add: cur_def modst_def)

lemma modst_fields [simp]:
  "reqSpecID (modst f w) = reqSpecID w"
  "resizer (modst f w) = resizer w"
  "renderers (modst f w) = renderers w"
  "refreshers (modst f w) = refreshers w"
  "frameTriggers (modst f w) = frameTriggers w"
  "mixers (modst f w) = mixers w"
  "state_ptr (modst f w) = state_ptr w"
  "arrays (modst f w) = arrays w"
  "nxt (modst f w) = nxt w"
  "trace (modst f w) = trace w"
  by (simp_all add: modst_def)

lemma cur_upd [simp]:
  "cur (w\<lparr>resizer := z\<rparr>) = cur w"
  "cur (w\<lparr>trace := t\<rparr>) = cur w"
  "cur (w\<lparr>arrays := a\<rparr>) = cur w"
  "cur (w\<lparr>nxt := n\<rparr>) = cur w"
  "cur (w\<lparr>renderers := rs\<rparr>) = cur w"
  "cur (w\<lparr>refreshers := rs\<rparr>) = cur w"
  "cur (w\<lparr>frameTriggers := rs\<rparr>) = cur w"
  "cur (w\<lparr>mixers := rs\<rparr>) = cur w"
  by (simp_all add: cur_def)

lemma rig_upd [simp]:
  "rig (modst f w) = rig w"
  "rig (w\<lparr>resizer := z\<rparr>) = rig w"
  "rig (w\<lparr>trace := t\<rparr>) = rig w"
  "rig (w\<lparr>arrays := a\<rparr>) = rig w"
  "rig (w\<lparr>nxt := n\<rparr>) = rig w"
  by (simp_all add: rig_def)

lemma alloc_fields [simp]:
  "cur (snd (alloc_array xs w)) = cur w"
  "rig (snd (alloc_array xs w)) = rig w"
  "resizer (snd (alloc_array xs w)) = resizer w"
  "trace (snd (alloc_array xs w)) = trace w"
  "states (snd (alloc_array xs w)) = states w"
  by (simp_all add: alloc_array_def cur_def rig_def)

lemma beam_upd [simp]:
  "beam (s\<lparr>spec := a\<rparr>) = beam s"
  "beam (s\<lparr>auto := b\<rparr>) = beam s"
  "beam (s\<lparr>top_sl := i\<rparr>) = beam s"
  "beam (s\<lparr>bottom_sl := i\<rparr>) = beam s"
  "beam (s\<lparr>signalHistory := h\<rparr>) = beam s"
  "beam (s\<lparr>signalHistoryIdx := i\<rparr>) = beam s"
  by (simp_all add: beam_def)

lemma beam_fields:
  assumes "beam a = beam b"
  shows "horizPos a = horizPos b" "scanline a = scanline b" "frameNum a = frameNum b"
    "syncedFrameNum a = syncedFrameNum b" "syncedFrame a = syncedFrame b"
    "lastSignal a = lastSignal b" "vsyncCount a = vsyncCount b"
  using assms by (simp_all add: beam_def)

lemma rig_fields:
  assumes "rig a = rig b"
  shows "reqSpecID a = reqSpecID b" "renderers a = renderers b" "refreshers a = refreshers b"
    "frameTriggers a = frameTriggers b" "mixers a = mixers b" "state_ptr a = state_ptr b"
  using assms by (simp_all add: rig_def)

lemma selectSpec_beam [simp]: "beam (selectSpec env u s) = beam s"
  by (simp add: selectSpec_def Let_def)

lemma selectSpec_spec:
  "spec (selectSpec env u s) = (if u = ''PAL'' then SpecPAL env else SpecNTSC env)"
  by (simp add: selectSpec_def Let_def)

lemma SetSpec_beam: "beam (cur (snd (SetSpec env sp w))) = beam (cur w)"
  by (simp add: SetSpec_def Let_def case_prod_beta split: option.split)

lemma SetSpec_rig: "rig (snd (SetSpec env sp w)) = rig w"
  by (simp add: SetSpec_def Let_def case_prod_beta split: option.split)

lemma SetSpec_spec:
  "spec (cur (snd (SetSpec env sp w))) =
     (if ToUpper env sp = ''PAL'' then SpecPAL env
      else if ToUpper env sp = ''NTSC'' \<or> ToUpper env sp = ''AUTO'' then SpecNTSC env
      else spec (cur w))"
  by (simp add: SetSpec_def Let_def case_prod_beta selectSpec_spec split: option.split)

lemma commit_beam: "beam (cur (snd (commit env w))) = beam (cur w)"
  by (simp add: commit_def Let_def case_prod_beta split: option.split prod.split)

lemma commit_rig: "rig (snd (commit env w)) = rig w"
  by (simp add: commit_def Let_def case_prod_beta split: option.split prod.split)

lemma commit_spec:
  "spec (cur (snd (commit env w))) = spec (cur w)"
  "auto (cur (snd (commit env w))) = auto (cur w)"
  by (simp_all add: commit_def Let_def case_prod_beta split: option.split prod.split)

lemma newScanline_cur: "cur (snd (newScanline env w)) = cur w"
  by (simp add: newScanline_def case_prod_beta)

lemma newScanline_rig: "rig (snd (newScanline env w)) = rig w"
  by (simp add: newScanline_def case_prod_beta)

lemma specChange_beam: "beam (cur (snd (specChange env w))) = beam (cur w)"
  by (simp add: specChange_def case_prod_beta SetSpec_beam split: option.split)

lemma specChange_rig: "rig (snd (specChange env w)) = rig w"
  by (simp add: specChange_def case_prod_beta SetSpec_rig split: option.split)

lemma specChange_spec:
  "spec (cur (snd (specChange env w))) = spec (cur w) \<or>
   spec (cur (snd (specChange env w))) = SpecNTSC env \<or>
   spec (cur (snd (specChange env w))) = SpecPAL env"
  by (simp add: specChange_def case_prod_beta SetSpec_spec split: option.split)

lemmas SetSpec_fields = beam_fields [OF SetSpec_beam]

lemmas commit_fields = beam_fields [OF commit_beam]

lemmas specChange_fields = beam_fields [OF specChange_beam]

lemma countSyncedFrame_cur:
  "cur (countSyncedFrame w) =
     (cur w)\<lparr>syncedFrameNum := syncedFrameNum (cur w) + (if syncedFrame (cur w) then 1 else 0)\<rparr>"
  by (simp add: countSyncedFrame_def)

lemma countSyncedFrame_rig: "rig (countSyncedFrame w) = rig w"
  by (simp add: countSyncedFrame_def)

lemma newFrame_rig: "rig (snd (newFrame env b w)) = rig w"
  by (simp add: newFrame_def Let_def case_prod_beta specChange_rig commit_rig countSyncedFrame_rig
        split: option.split)

lemma newFrame_always:
  "horizPos (cur (snd (newFrame env b w))) = horizPos (cur w)"
  "lastSignal (cur (snd (newFrame env b w))) = lastSignal (cur w)"
  "vsyncCount (cur (snd (newFrame env b w))) = vsyncCount (cur w)"
  "syncedFrameNum (cur (snd (newFrame env b w))) =
     syncedFrameNum (cur w) + (if syncedFrame (cur w) then 1 else 0)"
  by (simp_all add: newFrame_def Let_def case_prod_beta specChange_fields commit_fields
        countSyncedFrame_cur split: option.split)

lemma newFrame_ok:
  "fst (newFrame env b w) = None \<Longrightarrow>
     scanline (cur (snd (newFrame env b w))) = 0 \<and>
     frameNum (cur (snd (newFrame env b w))) = frameNum (cur w) + 1 \<and>
     syncedFrame (cur (snd (newFrame env b w))) = b \<and>
     signalHistoryIdx (cur (snd (newFrame env b w))) = 0"
  by (simp add: newFrame_def Let_def case_prod_beta specChange_fields commit_fields
        countSyncedFrame_cur split: option.splits)

lemma newFrame_scanline:
  "scanline (cur (snd (newFrame env b w))) = scanline (cur w) \<or>
   scanline (cur (snd (newFrame env b w))) = 0"
  by (simp add: newFrame_def Let_def case_prod_beta specChange_fields commit_fields
        countSyncedFrame_cur split: option.split)

lemma newFrame_spec:
  "spec (cur (snd (newFrame env b w))) = spec (cur w) \<or>
   spec (cur (snd (newFrame env b w))) = SpecNTSC env \<or>
   spec (cur (snd (newFrame env b w))) = SpecPAL env"
proof -
  have "spec (cur (snd (newFrame env b w))) = spec (cur (snd (specChange env (countSyncedFrame w))))"
    by (simp add: newFrame_def Let_def case_prod_beta commit_spec split: option.split)
  moreover have "spec (cur (countSyncedFrame w)) = spec (cur w)"
    by (simp add: countSyncedFrame_cur)
  ultimately show ?thesis
    using specChange_spec [of env "countSyncedFrame w"] by simp
qed

lemma Signal_audio_cur: "cur (snd (Signal_audio env sig w)) = cur w"
  by (simp add: Signal_audio_def case_prod_beta)

lemma Signal_audio_rig: "rig (snd (Signal_audio env sig w)) = rig w"
  by (simp add: Signal_audio_def case_prod_beta)

lemma Signal_examine_cur: "cur (Signal_examine env sig w) = cur w"
  by (simp add: Signal_examine_def)

lemma Signal_examine_rig: "rig (Signal_examine env sig w) = rig w"
  by (simp add: Signal_examine_def)

lemma Signal_clock_rig: "rig (snd (Signal_clock env w)) = rig w"
  by (simp add: Signal_clock_def Let_def newFrame_rig newScanline_rig)

lemma Signal_clock_always:
  "lastSignal (cur (snd (Signal_clock env w))) = lastSignal (cur w)"
  "vsyncCount (cur (snd (Signal_clock env w))) = vsyncCount (cur w)"
  "horizPos (cur (snd (Signal_clock env w))) =
     (if HorizClksScanline \<le> horizPos (cur w) + 1 then 0 else horizPos (cur w) + 1)"
  "syncedFrameNum (cur (snd (Signal_clock env w))) =
     syncedFrameNum (cur w) +
       (if HorizClksScanline \<le> horizPos (cur w) + 1 \<and>
           ScanlinesTotal (spec (cur w)) < scanline (cur w) + 1 \<and> syncedFrame (cur w) then 1 else 0)"
  by (simp_all add: Signal_clock_def Let_def newFrame_always newScanline_cur)

lemma Signal_clock_ok:
  "fst (Signal_clock env w) = None \<Longrightarrow>
     scanline (cur (snd (Signal_clock env w))) =
       (if HorizClksScanline \<le> horizPos (cur w) + 1
        then (if ScanlinesTotal (spec (cur w)) < scanline (cur w) + 1 then 0 else scanline (cur w) + 1)
        else scanline (cur w)) \<and>
     frameNum (cur (snd (Signal_clock env w))) =
       (if HorizClksScanline \<le> horizPos (cur w) + 1 \<and> ScanlinesTotal (spec (cur w)) < scanline (cur w) + 1
        then frameNum (cur w) + 1 else frameNum (cur w)) \<and>
     syncedFrame (cur (snd (Signal_clock env w))) =
       (if HorizClksScanline \<le> horizPos (cur w) + 1 \<and> ScanlinesTotal (spec (cur w)) < scanline (cur w) + 1
        then False else syncedFrame (cur w))"
  by (cases "HorizClksScanline \<le> horizPos (cur w) + 1";
      cases "ScanlinesTotal (spec (cur w)) < scanline (cur w) + 1")
     (auto simp add: Signal_clock_def Let_def newFrame_ok newScanline_cur)

lemma Signal_clock_spec:
  "spec (cur (snd (Signal_clock env w))) = spec (cur w) \<or>
   spec (cur (snd (Signal_clock env w))) = SpecNTSC env \<or>
   spec (cur (snd (Signal_clock env w))) = SpecPAL env"
  using newFrame_spec [of env False
          "modst (\<lambda>s. s\<lparr>scanline := scanline s + 1\<rparr>)
             (modst (\<lambda>s. s\<lparr>horizPos := 0\<rparr>) (modst (\<lambda>s. s\<lparr>horizPos := horizPos s + 1\<rparr>) w))"]
  by (simp add: Signal_clock_def Let_def newScanline_cur)

lemma Signal_vsync_rig: "rig (snd (Signal_vsync env sig w)) = rig w"
  by (simp add: Signal_vsync_def newFrame_rig)

lemma Signal_vsync_always:
  "lastSignal (cur (snd (Signal_vsync env sig w))) = lastSignal (cur w)"
  "horizPos (cur (snd (Signal_vsync env sig w))) = horizPos (cur w)"
  "vsyncCount (cur (snd (Signal_vsync env sig w))) =
     (if VSync sig \<and> \<not> VSync (lastSignal (cur w)) then 0 else vsyncCount (cur w))"
  "syncedFrameNum (cur (snd (Signal_vsync env sig w))) =
     syncedFrameNum (cur w) +
       (if \<not> VSync sig \<and> VSync (lastSignal (cur w)) \<and> 0 < vsyncCount (cur w) \<and> syncedFrame (cur w)
        then 1 else 0)"
  by (simp_all add: Signal_vsync_def newFrame_always)

lemma Signal_vsync_ok:
  "fst (Signal_vsync env sig w) = None \<Longrightarrow>
     (if \<not> VSync sig \<and> VSync (lastSignal (cur w)) \<and> 0 < vsyncCount (cur w)
      then scanline (cur (snd (Signal_vsync env sig w))) = 0 \<and>
           frameNum (cur (snd (Signal_vsync env sig w))) = frameNum (cur w) + 1 \<and>
           syncedFrame (cur (snd (Signal_vsync env sig w))) = True
      else scanline (cur (snd (Signal_vsync env sig w))) = scanline (cur w) \<and>
           frameNum (cur (snd (Signal_vsync env sig w))) = frameNum (cur w) \<and>
           syncedFrame (cur (snd (Signal_vsync env sig w))) = syncedFrame (cur w))"
  by (cases "\<not> VSync sig \<and> VSync (lastSignal (cur w)) \<and> 0 < vsyncCount (cur w)")
     (auto simp add: Signal_vsync_def newFrame_ok)

lemma Signal_vsync_scanline:
  "scanline (cur (snd (Signal_vsync env sig w))) = scanline (cur w) \<or>
   scanline (cur (snd (Signal_vsync env sig w))) = 0"
  using newFrame_scanline [of env True w] by (simp add: Signal_vsync_def)

lemma Signal_vsync_spec:
  "spec (cur (snd (Signal_vsync env sig w))) = spec (cur w) \<or>
   spec (cur (snd (Signal_vsync env sig w))) = SpecNTSC env \<or>
   spec (cur (snd (Signal_vsync env sig w))) = SpecPAL env"
  using newFrame_spec [of env True w] by (simp add: Signal_vsync_def)

lemma Signal_hsync_rig: "rig (Signal_hsync sig w) = rig w"
  by (simp add: Signal_hsync_def Let_def)

lemma Signal_hsync_fields:
  "lastSignal (cur (Signal_hsync sig w)) = lastSignal (cur w)"
  "scanline (cur (Signal_hsync sig w)) = scanline (cur w)"
  "frameNum (cur (Signal_hsync sig w)) = frameNum (cur w)"
  "syncedFrameNum (cur (Signal_hsync sig w)) = syncedFrameNum (cur w)"
  "syncedFrame (cur (Signal_hsync sig w)) = syncedFrame (cur w)"
  "spec (cur (Signal_hsync sig w)) = spec (cur w)"
  "horizPos (cur (Signal_hsync sig w)) =
     (if HSync sig \<and> \<not> HSync (lastSignal (cur w)) then 16
      else if \<not> HSync sig \<and> HSync (lastSignal (cur w)) then 36
      else horizPos (cur w))"
  "vsyncCount (cur (Signal_hsync sig w)) =
     (if HSync sig \<and> \<not> HSync (lastSignal (cur w)) \<and> (VSync sig \<or> VSync (lastSignal (cur w)))
      then vsyncCount (cur w) + 1 else vsyncCount (cur w))"
  by (simp_all add: Signal_hsync_def Let_def)

lemma Signal_pixel_cur: "cur (snd (Signal_pixel env sig w)) = cur w"
  by (simp add: Signal_pixel_def case_prod_beta)

lemma Signal_pixel_rig: "rig (snd (Signal_pixel env sig w)) = rig w"
  by (simp add: Signal_pixel_def case_prod_beta)

lemma appendHistory_beam: "beam (cur (appendHistory env e w)) = beam (cur w)"
  by (simp add: appendHistory_def Let_def case_prod_beta)

lemma appendHistory_spec: "spec (cur (appendHistory env e w)) = spec (cur w)"
  by (simp add: appendHistory_def Let_def case_prod_beta)

lemma appendHistory_rig: "rig (appendHistory env e w) = rig w"
  by (simp add: appendHistory_def Let_def case_prod_beta)

lemma Signal_history_rig: "rig (snd (Signal_history env sig w)) = rig w"
  by (simp add: Signal_history_def Let_def appendHistory_rig)

lemma Signal_history_beam:
  "beam (cur (snd (Signal_history env sig w))) = beam ((cur w)\<lparr>lastSignal := sig\<rparr>)"
  by (simp add: Signal_history_def Let_def appendHistory_beam)

lemma Signal_history_spec: "spec (cur (snd (Signal_history env sig w))) = spec (cur w)"
  by (simp add: Signal_history_def Let_def appendHistory_spec)

lemmas Signal_history_fields = beam_fields [OF Signal_history_beam]

lemma Signal_rig: "rig (snd (Signal env sig w)) = rig w"
  by (simp add: Signal_def case_prod_beta Signal_audio_rig Signal_examine_rig Signal_clock_rig
        Signal_vsync_rig Signal_hsync_rig Signal_pixel_rig Signal_history_rig split: option.split)

lemma Signal_syncedFrameNum_mono:
  "syncedFrameNum (cur w) \<le> syncedFrameNum (cur (snd (Signal env sig w)))"
  by (simp add: Signal_def case_prod_beta Signal_audio_cur Signal_examine_cur Signal_clock_always
        Signal_vsync_always Signal_hsync_fields Signal_pixel_cur Signal_history_fields
        split: option.split)

lemma Signal_horizPos:
  "0 \<le> horizPos (cur w) \<Longrightarrow> horizPos (cur w) < HorizClksScanline \<Longrightarrow>
   0 \<le> horizPos (cur (snd (Signal env sig w))) \<and> horizPos (cur (snd (Signal env sig w))) < HorizClksScanline"
  by (simp add: Signal_def case_prod_beta Signal_audio_cur Signal_examine_cur Signal_clock_always
        Signal_vsync_always Signal_hsync_fields Signal_pixel_cur Signal_history_fields
        HorizClksScanline_def split: option.split)

lemma Signal_ok_always:
  assumes "fst (Signal env sig w) = None"
  shows "lastSignal (cur (snd (Signal env sig w))) = sig"
    and "horizPos (cur (snd (Signal env sig w))) =
          (if HSync sig \<and> \<not> HSync (lastSignal (cur w)) then 16
           else if \<not> HSync sig \<and> HSync (lastSignal (cur w)) then 36
           else if HorizClksScanline \<le> horizPos (cur w) + 1 then 0 else horizPos (cur w) + 1)"
    and "vsyncCount (cur (snd (Signal env sig w))) =
          (if VSync sig \<and> \<not> VSync (lastSignal (cur w)) then 0 else vsyncCount (cur w)) +
          (if HSync sig \<and> \<not> HSync (lastSignal (cur w)) \<and> (VSync sig \<or> VSync (lastSignal (cur w)))
           then 1 else 0)"
  using assms
  by (simp_all add: Signal_def case_prod_beta Signal_audio_cur Signal_examine_cur Signal_clock_always
        Signal_vsync_always Signal_hsync_fields Signal_pixel_cur Signal_history_fields
        split: option.splits)

lemma core_fields:
  assumes "core a = core b"
  shows "horizPos a = horizPos b" "scanline a = scanline b" "frameNum a = frameNum b"
    "syncedFrameNum a = syncedFrameNum b" "syncedFrame a = syncedFrame b"
    "lastSignal a = lastSignal b" "vsyncCount a = vsyncCount b" "spec a = spec b" "auto a = auto b"
  using assms by (simp_all add: core_def beam_def)

lemma core_upd [simp]:
  "core (s\<lparr>top_sl := i\<rparr>) = core s"
  "core (s\<lparr>bottom_sl := i\<rparr>) = core s"
  "core (s\<lparr>signalHistory := h\<rparr>) = core s"
  "core (s\<lparr>signalHistoryIdx := i\<rparr>) = core s"
  by (simp_all add: core_def beam_def)

lemma core_cong:
  assumes "core a = core b"
  shows "switchesToPAL env a = switchesToPAL env b"
    and "core (frameS env synced a) = core (frameS env synced b)"
    and "core (clockS env a) = core (clockS env b)"
    and "core (vsyncS env sig a) = core (vsyncS env sig b)"
    and "core (hsyncS sig a) = core (hsyncS sig b)"
    and "core (a\<lparr>lastSignal := sig\<rparr>) = core (b\<lparr>lastSignal := sig\<rparr>)"
  using assms
  by (simp_all add: core_def beam_def switchesToPAL_def frameS_def clockS_def vsyncS_def hsyncS_def Let_def)

lemma selectSpec_auto: "auto (selectSpec env u s) = (u \<noteq> ''NTSC'' \<and> u \<noteq> ''PAL'')"
  by (simp add: selectSpec_def Let_def)

lemma SetSpec_auto:
  "auto (cur (snd (SetSpec env sp w))) =
     (if ToUpper env sp = ''NTSC'' \<or> ToUpper env sp = ''PAL'' then False
      else if ToUpper env sp = ''AUTO'' then True else auto (cur w))"
  by (simp add: SetSpec_def Let_def case_prod_beta selectSpec_auto split: option.split)

lemma specChange_core:
  "ToUpper env ''PAL'' = ''PAL'' \<Longrightarrow>
   core (cur (snd (specChange env w))) =
     core (if switchesToPAL env (cur w) then (cur w)\<lparr>spec := SpecPAL env, auto := False\<rparr> else cur w)"
  by (simp add: specChange_def case_prod_beta core_def SetSpec_beam SetSpec_spec SetSpec_auto
        switchesToPAL_def split: option.split)

lemma commit_core: "core (cur (snd (commit env w))) = core (cur w)"
  by (simp add: core_def commit_beam commit_spec)

lemma newFrame_core:
  assumes "ToUpper env ''PAL'' = ''PAL''" and "fst (newFrame env b w) = None"
  shows "core (cur (snd (newFrame env b w))) = core (frameS env b (cur w))"
proof -
  let ?w1 = "countSyncedFrame w"
  let ?w2 = "snd (specChange env ?w1)"
  let ?w3 = "snd (commit env ?w2)"
  have c3: "core (cur ?w3) =
      core (if switchesToPAL env (cur ?w1) then (cur ?w1)\<lparr>spec := SpecPAL env, auto := False\<rparr> else cur ?w1)"
    by (simp add: commit_core specChange_core [OF assms(1)])
  have "core (cur (snd (newFrame env b w))) =
        core ((cur ?w3)\<lparr>frameNum := frameNum (cur ?w3) + 1, scanline := 0, syncedFrame := b\<rparr>)"
    using assms(2)
    by (simp add: newFrame_def Let_def case_prod_beta split: option.splits)
  also have "\<dots> = core (frameS env b (cur w))"
    using c3
    by (simp add: core_def beam_def frameS_def Let_def countSyncedFrame_cur switchesToPAL_def
          split: if_splits)
  finally show ?thesis .
qed

lemma Signal_clock_core:
  assumes "ToUpper env ''PAL'' = ''PAL''" and "fst (Signal_clock env w) = None"
  shows "core (cur (snd (Signal_clock env w))) = core (clockS env (cur w))"
proof (cases "HorizClksScanline \<le> horizPos (cur w) + 1")
  case False
  then show ?thesis by (simp add: Signal_clock_def clockS_def Let_def)
next
  case True
  let ?w3 = "modst (\<lambda>s. s\<lparr>scanline := scanline s + 1\<rparr>)
             (modst (\<lambda>s. s\<lparr>horizPos := 0\<rparr>) (modst (\<lambda>s. s\<lparr>horizPos := horizPos s + 1\<rparr>) w))"
  have cw3: "cur ?w3 = (cur w)\<lparr>horizPos := 0, scanline := scanline (cur w) + 1\<rparr>" by simp
  show ?thesis
  proof (cases "ScanlinesTotal (spec (cur w)) < scanline (cur w) + 1")
    case fly: True
    with True assms(2) have "fst (newFrame env False ?w3) = None"
      by (simp add: Signal_clock_def Let_def)
    from newFrame_core [OF assms(1) this] True fly show ?thesis
      by (simp add: Signal_clock_def clockS_def Let_def)
  next
    case nofly: False
    with True show ?thesis
      by (simp add: Signal_clock_def clockS_def Let_def newScanline_cur)
  qed
qed

lemma Signal_vsync_core:
  assumes "ToUpper env ''PAL'' = ''PAL''" and "fst (Signal_vsync env sig w) = None"
  shows "core (cur (snd (Signal_vsync env sig w))) = core (vsyncS env sig (cur w))"
proof (cases "\<not> VSync sig \<and> VSync (lastSignal (cur w)) \<and> 0 < vsyncCount (cur w)")
  case True
  with assms(2) have "fst (newFrame env True w) = None" by (simp add: Signal_vsync_def)
  from newFrame_core [OF assms(1) this] True show ?thesis
    by (simp add: Signal_vsync_def vsyncS_def)
next
  case False
  then show ?thesis by (auto simp add: Signal_vsync_def vsyncS_def)
qed

lemma Signal_hsync_cur: "cur (Signal_hsync sig w) = hsyncS sig (cur w)"
  by (simp add: Signal_hsync_def hsyncS_def Let_def)

lemma Signal_history_core:
  "core (cur (snd (Signal_history env sig w))) = core ((cur w)\<lparr>lastSignal := sig\<rparr>)"
  by (simp add: core_def Signal_history_beam Signal_history_spec Signal_history_def Let_def
        appendHistory_def case_prod_beta)

lemma Signal_okD:
  assumes "fst (Signal env sig w) = None"
  shows "fst (Signal_audio env sig w) = None"
    and "fst (Signal_clock env (Signal_examine env sig (snd (Signal_audio env sig w)))) = None"
    and "fst (Signal_vsync env sig
           (snd (Signal_clock env (Signal_examine env sig (snd (Signal_audio env sig w)))))) = None"
    and "fst (Signal_pixel env sig (Signal_hsync sig (snd (Signal_vsync env sig
           (snd (Signal_clock env (Signal_examine env sig (snd (Signal_audio env sig w)))))))))  = None"
    and "Signal env sig w =
         Signal_history env sig (snd (Signal_pixel env sig (Signal_hsync sig (snd (Signal_vsync env sig
           (snd (Signal_clock env (Signal_examine env sig (snd (Signal_audio env sig w))))))))))"
proof -
  obtain ea wa where a: "Signal_audio env sig w = (ea, wa)" by force
  obtain ec wc where c: "Signal_clock env (Signal_examine env sig wa) = (ec, wc)" by force
  obtain ev wv where v: "Signal_vsync env sig wc = (ev, wv)" by force
  obtain ep wp where p: "Signal_pixel env sig (Signal_hsync sig wv) = (ep, wp)" by force
  from assms a c v p
  have "ea = None \<and> ec = None \<and> ev = None \<and> ep = None \<and> Signal env sig w = Signal_history env sig wp"
    by (cases ea; cases ec; cases ev; cases ep) (simp_all add: Signal_def)
  with a c v p
  show "fst (Signal_audio env sig w) = None"
    and "fst (Signal_clock env (Signal_examine env sig (snd (Signal_audio env sig w)))) = None"
    and "fst (Signal_vsync env sig
           (snd (Signal_clock env (Signal_examine env sig (snd (Signal_audio env sig w)))))) = None"
    and "fst (Signal_pixel env sig (Signal_hsync sig (snd (Signal_vsync env sig
           (snd (Signal_clock env (Signal_examine env sig (snd (Signal_audio env sig w)))))))))  = None"
    and "Signal env sig w =
         Signal_history env sig (snd (Signal_pixel env sig (Signal_hsync sig (snd (Signal_vsync env sig
           (snd (Signal_clock env (Signal_examine env sig (snd (Signal_audio env sig w))))))))))"
    by simp_all
qed

lemma Signal_core:
  assumes up: "ToUpper env ''PAL'' = ''PAL''" and ok: "fst (Signal env sig w) = None"
  shows "core (cur (snd (Signal env sig w))) = core (nextState env sig (cur w))"
proof -
  let ?a = "snd (Signal_audio env sig w)"
  let ?c = "snd (Signal_clock env (Signal_examine env sig ?a))"
  let ?v = "snd (Signal_vsync env sig ?c)"
  let ?p = "snd (Signal_pixel env sig (Signal_hsync sig ?v))"
  note d = Signal_okD [OF ok]
  have 1: "core (cur ?c) = core (clockS env (cur w))"
    using Signal_clock_core [OF up d(2)] by (simp add: Signal_examine_cur Signal_audio_cur)
  have 2: "core (cur ?v) = core (vsyncS env sig (clockS env (cur w)))"
    using Signal_vsync_core [OF up d(3)] core_cong(4) [OF 1] by simp
  have 3: "core (cur ?p) = core (hsyncS sig (vsyncS env sig (clockS env (cur w))))"
    using core_cong(5) [OF 2] by (simp add: Signal_pixel_cur Signal_hsync_cur)
  have "core (cur (snd (Signal_history env sig ?p))) = core (nextState env sig (cur w))"
    using core_cong(6) [OF 3] by (simp add: Signal_history_core nextState_def)
  then show ?thesis by (simp add: d(5))
qed

subsection \<open>The television: calls that return no error, and runs\<close>

lemma fanout_ok: "(\<And>t r. \<not> fails env t (r, c)) \<Longrightarrow> fst (fanout env rs c t) = None"
  by (induction rs arbitrary: t) simp_all

lemma idx_SetSpec:
  "0 \<le> signalHistoryIdx (cur w) \<Longrightarrow> 0 \<le> signalHistoryIdx (cur (snd (SetSpec env sp w)))"
  by (simp add: SetSpec_def Let_def case_prod_beta selectSpec_def split: option.split)

lemma idx_commit: "signalHistoryIdx (cur (snd (commit env w))) = signalHistoryIdx (cur w)"
  by (simp add: commit_def Let_def case_prod_beta split: option.split prod.split)

lemma idx_specChange:
  "0 \<le> signalHistoryIdx (cur w) \<Longrightarrow> 0 \<le> signalHistoryIdx (cur (snd (specChange env w)))"
  by (simp add: specChange_def case_prod_beta idx_SetSpec split: option.split)

lemma idx_newFrame:
  "0 \<le> signalHistoryIdx (cur w) \<Longrightarrow> 0 \<le> signalHistoryIdx (cur (snd (newFrame env b w)))"
  by (simp add: newFrame_def Let_def case_prod_beta idx_commit idx_specChange countSyncedFrame_cur
        split: option.split)

lemma idx_clock:
  "0 \<le> signalHistoryIdx (cur w) \<Longrightarrow> 0 \<le> signalHistoryIdx (cur (snd (Signal_clock env w)))"
  by (simp add: Signal_clock_def Let_def idx_newFrame newScanline_cur)

lemma idx_vsync:
  "0 \<le> signalHistoryIdx (cur w) \<Longrightarrow> 0 \<le> signalHistoryIdx (cur (snd (Signal_vsync env sig w)))"
  by (simp add: Signal_vsync_def idx_newFrame)

lemma idx_hsync: "signalHistoryIdx (cur (Signal_hsync sig w)) = signalHistoryIdx (cur w)"
  by (simp add: Signal_hsync_cur hsyncS_def)

lemma idx_appendHistory: "signalHistoryIdx (cur (appendHistory env e w)) = signalHistoryIdx (cur w)"
  by (simp add: appendHistory_def Let_def case_prod_beta)

lemma history_ok:
  "0 \<le> signalHistoryIdx (cur w) \<Longrightarrow>
     fst (Signal_history env sig w) = None \<and> 0 \<le> signalHistoryIdx (cur (snd (Signal_history env sig w)))"
  by (simp add: Signal_history_def Let_def idx_appendHistory)

lemma fanout_no_panic:
  "fst (fanout env rs c t) \<noteq> Some PanicMakeSlice \<and> fst (fanout env rs c t) \<noteq> Some PanicIndex"
  by (induction rs arbitrary: t) simp_all

lemma SetSpec_PAL_no_panic:
  assumes "ToUpper env ''PAL'' = ''PAL''" and "ScanlineTop (SpecPAL env) \<le> ScanlineBottom (SpecPAL env)"
  shows "fst (SetSpec env ''PAL'' w) \<noteq> Some PanicMakeSlice \<and> fst (SetSpec env ''PAL'' w) \<noteq> Some PanicIndex"
  using assms
  using fanout_no_panic
  by (auto simp add: SetSpec_def Let_def case_prod_beta selectSpec_def HorizClksScanline_def
        split: option.split)

lemma SetSpec_not_PanicIndex: "fst (SetSpec env sp w) \<noteq> Some PanicIndex"
  using fanout_no_panic
  by (auto simp add: SetSpec_def Let_def case_prod_beta split: option.split)

lemma specChange_ok:
  assumes "ToUpper env ''PAL'' = ''PAL''" and "ScanlineTop (SpecPAL env) \<le> ScanlineBottom (SpecPAL env)"
  shows "fst (specChange env w) = None"
  using SetSpec_PAL_no_panic [OF assms, of w]
  by (auto simp add: specChange_def case_prod_beta isPanic_def split: option.split)

lemma specChange_idle: "\<not> switchesToPAL env (cur w) \<Longrightarrow> specChange env w = (None, w)"
  by (auto simp add: specChange_def switchesToPAL_def)

lemma commit_ok: "neverFails env \<Longrightarrow> fst (commit env w) = None"
  by (simp add: commit_def Let_def case_prod_beta fanout_ok neverFails_def split: option.split prod.split)

lemma newFrame_success:
  assumes "neverFails env" and "ToUpper env ''PAL'' = ''PAL''"
    and "ScanlineTop (SpecPAL env) \<le> ScanlineBottom (SpecPAL env)"
  shows "fst (newFrame env b w) = None"
  using assms(1)
  by (simp add: newFrame_def Let_def case_prod_beta specChange_ok [OF assms(2,3)] commit_ok fanout_ok
        neverFails_def split: option.split)

lemma only_resize: "failsOnlyResize env \<Longrightarrow> \<not> isResize c \<Longrightarrow> \<not> fails env t (r, c)"
  unfolding failsOnlyResize_def by blast

lemma newScanline_ok: "failsOnlyResize env \<Longrightarrow> fst (newScanline env w) = None"
  by (simp add: newScanline_def case_prod_beta fanout_ok only_resize isResize_def)

lemma audio_ok: "failsOnlyResize env \<Longrightarrow> fst (Signal_audio env sig w) = None"
  by (simp add: Signal_audio_def case_prod_beta fanout_ok only_resize isResize_def)

lemma pixel_ok: "failsOnlyResize env \<Longrightarrow> fst (Signal_pixel env sig w) = None"
  by (simp add: Signal_pixel_def case_prod_beta fanout_ok only_resize isResize_def)

lemma neverFails_only: "neverFails env \<Longrightarrow> failsOnlyResize env"
  by (simp add: neverFails_def failsOnlyResize_def)

lemma Signal_assemble:
  assumes "fst (Signal_audio env sig w) = None"
    and "fst (Signal_clock env (Signal_examine env sig (snd (Signal_audio env sig w)))) = None"
    and "fst (Signal_vsync env sig
           (snd (Signal_clock env (Signal_examine env sig (snd (Signal_audio env sig w)))))) = None"
    and "fst (Signal_pixel env sig (Signal_hsync sig (snd (Signal_vsync env sig
           (snd (Signal_clock env (Signal_examine env sig (snd (Signal_audio env sig w)))))))))  = None"
  shows "Signal env sig w =
         Signal_history env sig (snd (Signal_pixel env sig (Signal_hsync sig (snd (Signal_vsync env sig
           (snd (Signal_clock env (Signal_examine env sig (snd (Signal_audio env sig w))))))))))"
proof -
  obtain ea wa where a: "Signal_audio env sig w = (ea, wa)" by force
  obtain ec wc where c: "Signal_clock env (Signal_examine env sig wa) = (ec, wc)" by force
  obtain ev wv where v: "Signal_vsync env sig wc = (ev, wv)" by force
  obtain ep wp where p: "Signal_pixel env sig (Signal_hsync sig wv) = (ep, wp)" by force
  from assms a c v p show ?thesis by (simp add: Signal_def)
qed

lemma Signal_success:
  assumes nf: "neverFails env" and up: "ToUpper env ''PAL'' = ''PAL''"
    and pal: "ScanlineTop (SpecPAL env) \<le> ScanlineBottom (SpecPAL env)"
    and idx: "0 \<le> signalHistoryIdx (cur w)"
  shows "fst (Signal env sig w) = None \<and> 0 \<le> signalHistoryIdx (cur (snd (Signal env sig w)))"
proof -
  let ?a = "snd (Signal_audio env sig w)"
  let ?x = "Signal_examine env sig ?a"
  let ?c = "snd (Signal_clock env ?x)"
  let ?v = "snd (Signal_vsync env sig ?c)"
  let ?p = "snd (Signal_pixel env sig (Signal_hsync sig ?v))"
  note fo = neverFails_only [OF nf]
  have a: "fst (Signal_audio env sig w) = None" by (rule audio_ok [OF fo])
  have c: "fst (Signal_clock env ?x) = None"
    by (simp add: Signal_clock_def Let_def newFrame_success [OF nf up pal] newScanline_ok [OF fo])
  have v: "fst (Signal_vsync env sig ?c) = None"
    by (simp add: Signal_vsync_def newFrame_success [OF nf up pal])
  have p: "fst (Signal_pixel env sig (Signal_hsync sig ?v)) = None" by (rule pixel_ok [OF fo])
  have i: "0 \<le> signalHistoryIdx (cur ?p)"
    using idx by (simp add: Signal_pixel_cur idx_hsync idx_vsync idx_clock Signal_examine_cur Signal_audio_cur)
  from history_ok [OF i] Signal_assemble [OF a c v p] show ?thesis by simp
qed

lemma Signal_success_noframe:
  assumes fo: "failsOnlyResize env" and idx: "0 \<le> signalHistoryIdx (cur w)"
    and nofly: "\<not> flyS (cur w)" and nofall: "\<not> fallS sig (clockS env (cur w))"
  shows "fst (Signal env sig w) = None \<and> 0 \<le> signalHistoryIdx (cur (snd (Signal env sig w)))"
proof -
  let ?a = "snd (Signal_audio env sig w)"
  let ?x = "Signal_examine env sig ?a"
  let ?c = "snd (Signal_clock env ?x)"
  let ?v = "snd (Signal_vsync env sig ?c)"
  let ?p = "snd (Signal_pixel env sig (Signal_hsync sig ?v))"
  have a: "fst (Signal_audio env sig w) = None" by (rule audio_ok [OF fo])
  have c: "fst (Signal_clock env ?x) = None"
    using nofly
    by (auto simp add: Signal_clock_def Let_def flyS_def Signal_examine_cur Signal_audio_cur
          newScanline_ok [OF fo])
  have cc: "lastSignal (cur ?c) = lastSignal (clockS env (cur w)) \<and> vsyncCount (cur ?c) = vsyncCount (clockS env (cur w))"
    using nofly
    by (simp add: Signal_clock_always Signal_examine_cur Signal_audio_cur clockS_def Let_def flyS_def)
  have v: "fst (Signal_vsync env sig ?c) = None"
    using nofall cc by (auto simp add: Signal_vsync_def fallS_def)
  have p: "fst (Signal_pixel env sig (Signal_hsync sig ?v)) = None" by (rule pixel_ok [OF fo])
  have i: "0 \<le> signalHistoryIdx (cur ?p)"
    using idx by (simp add: Signal_pixel_cur idx_hsync idx_vsync idx_clock Signal_examine_cur Signal_audio_cur)
  from history_ok [OF i] Signal_assemble [OF a c v p] show ?thesis by simp
qed

lemma nextState_cong: "core a = core b \<Longrightarrow> core (nextState env sig a) = core (nextState env sig b)"
  unfolding nextState_def
  by (intro core_cong(6) core_cong(5) core_cong(4) core_cong(3))

lemma fold_nextState_cong:
  "core a = core b \<Longrightarrow> core (fold (nextState env) sigs a) = core (fold (nextState env) sigs b)"
proof (induction sigs arbitrary: a b)
  case Nil
  then show ?case by simp
next
  case (Cons sig sigs)
  from Cons.IH [OF nextState_cong [OF Cons.prems, of env sig]] show ?case by simp
qed

lemma flyS_cong: "core a = core b \<Longrightarrow> flyS a = flyS b"
  by (simp add: flyS_def core_def beam_def)

lemma fallS_cong: "core a = core b \<Longrightarrow> fallS sig a = fallS sig b"
  by (simp add: fallS_def core_def beam_def)

lemma noFrames_cong: "core a = core b \<Longrightarrow> noFrames env sigs a = noFrames env sigs b"
proof (induction sigs arbitrary: a b)
  case Nil
  then show ?case by simp
next
  case (Cons sig sigs)
  note f = flyS_cong [OF Cons.prems] fallS_cong [OF core_cong(3) [OF Cons.prems], of sig env]
  from Cons.IH [OF nextState_cong [OF Cons.prems, of env sig]] f show ?case by simp
qed

lemma run_Cons_ok:
  "fst (Signal env sig w) = None \<Longrightarrow> run env (sig # sigs) w = run env sigs (snd (Signal env sig w))"
  by (cases "Signal env sig w") simp

lemma run_rig: "rig (snd (run env sigs w)) = rig w"
proof (induction sigs arbitrary: w)
  case Nil
  then show ?case by simp
next
  case (Cons sig sigs)
  show ?case
  proof (cases "fst (Signal env sig w)")
    case None
    from Cons.IH [of "snd (Signal env sig w)"] show ?thesis
      unfolding run_Cons_ok [OF None] by (simp add: Signal_rig)
  next
    case (Some e)
    then have "run env (sig # sigs) w = Signal env sig w"
      by (cases "Signal env sig w") simp
    then show ?thesis by (simp add: Signal_rig)
  qed
qed

lemma run_neverFails:
  assumes nf: "neverFails env" and up: "ToUpper env ''PAL'' = ''PAL''"
    and pal: "ScanlineTop (SpecPAL env) \<le> ScanlineBottom (SpecPAL env)"
  shows "0 \<le> signalHistoryIdx (cur w) \<Longrightarrow>
     fst (run env sigs w) = None \<and>
     core (cur (snd (run env sigs w))) = core (fold (nextState env) sigs (cur w)) \<and>
     0 \<le> signalHistoryIdx (cur (snd (run env sigs w)))"
proof (induction sigs arbitrary: w)
  case Nil
  then show ?case by simp
next
  case (Cons sig sigs)
  note s = Signal_success [OF nf up pal Cons.prems, of sig]
  note r = run_Cons_ok [OF conjunct1 [OF s], of sigs]
  from s have c: "core (cur (snd (Signal env sig w))) = core (nextState env sig (cur w))"
    by (simp add: Signal_core [OF up])
  from Cons.IH [of "snd (Signal env sig w)"] s fold_nextState_cong [OF c, of env sigs]
  show ?case unfolding r by simp
qed

lemma run_noFrames:
  assumes fo: "failsOnlyResize env" and up: "ToUpper env ''PAL'' = ''PAL''"
  shows "0 \<le> signalHistoryIdx (cur w) \<Longrightarrow> noFrames env sigs (cur w) \<Longrightarrow>
     fst (run env sigs w) = None \<and>
     core (cur (snd (run env sigs w))) = core (fold (nextState env) sigs (cur w)) \<and>
     0 \<le> signalHistoryIdx (cur (snd (run env sigs w)))"
proof (induction sigs arbitrary: w)
  case Nil
  then show ?case by simp
next
  case (Cons sig sigs)
  from Cons.prems(2) have nofly: "\<not> flyS (cur w)" and nofall: "\<not> fallS sig (clockS env (cur w))"
    and rest: "noFrames env sigs (nextState env sig (cur w))"
    by simp_all
  note s = Signal_success_noframe [OF fo Cons.prems(1) nofly nofall]
  note r = run_Cons_ok [OF conjunct1 [OF s], of sigs]
  from s have c: "core (cur (snd (Signal env sig w))) = core (nextState env sig (cur w))"
    by (simp add: Signal_core [OF up])
  from rest noFrames_cong [OF c, of env sigs]
  have "noFrames env sigs (cur (snd (Signal env sig w)))" by simp
  from Cons.IH [OF _ this] s fold_nextState_cong [OF c, of env sigs]
  show ?case unfolding r by simp
qed

lemma run_append:
  "run env (xs @ ys) w =
     (case run env xs w of (Some e, w') \<Rightarrow> (Some e, w') | (None, w') \<Rightarrow> run env ys w')"
  by (induction xs arbitrary: w) (simp_all split: prod.split option.split)

lemma succ_wrap:
  fixes q c :: int
  assumes "0 < c" and "q mod c + 1 = c"
  shows "(q + 1) mod c = 0" and "(q + 1) div c = q div c + 1"
proof -
  have "q + 1 = c * (q div c) + (q mod c + 1)"
    using mult_div_mod_eq [of c q] by simp
  also have "\<dots> = c * (q div c + 1)"
    unfolding assms(2) by (simp add: algebra_simps)
  finally have e: "q + 1 = c * (q div c + 1)" .
  show "(q + 1) mod c = 0" unfolding e by simp
  show "(q + 1) div c = q div c + 1" unfolding e using assms(1) by simp
qed

lemma succ_nowrap:
  fixes q c :: int
  assumes "0 < c" and "q mod c + 1 < c"
  shows "(q + 1) mod c = q mod c + 1" and "(q + 1) div c = q div c"
proof -
  have e: "q + 1 = c * (q div c) + (q mod c + 1)"
    using mult_div_mod_eq [of c q] by simp
  have r: "0 \<le> q mod c + 1" using assms(1) pos_mod_sign [of c q] by simp
  show "(q + 1) mod c = q mod c + 1"
    using int_mod_pos_eq [OF e r assms(2)] .
  show "(q + 1) div c = q div c"
    using int_div_pos_eq [OF e r assms(2)] .
qed

lemma vsyncS_steady: "VSync sig = VSync (lastSignal s) \<Longrightarrow> vsyncS env sig s = s"
  by (auto simp add: vsyncS_def)

lemma hsyncS_steady: "HSync sig = HSync (lastSignal s) \<Longrightarrow> hsyncS sig s = s"
  by (auto simp add: hsyncS_def)

lemma steady_step:
  assumes "lastSignal s = sig" and "horizPos s = q mod 228" and "scanline s = q div 228"
    and "(q + 1) div 228 \<le> ScanlinesTotal (spec s)"
  shows "nextState env sig s = s\<lparr>horizPos := (q + 1) mod 228, scanline := (q + 1) div 228\<rparr>"
    and "\<not> flyS s" and "\<not> fallS sig (clockS env s)"
proof -
  have c: "clockS env s = s\<lparr>horizPos := (q + 1) mod 228, scanline := (q + 1) div 228\<rparr> \<and> \<not> flyS s"
  proof (cases "q mod 228 + 1 = 228")
    case True
    note w = succ_wrap [OF _ True]
    from True assms(2,3,4) show ?thesis
      by (simp add: clockS_def flyS_def HorizClksScanline_def Let_def w)
  next
    case False
    have "q mod 228 < 228" by simp
    with False have lt: "q mod 228 + 1 < 228" by simp
    note n = succ_nowrap [OF _ lt]
    from lt assms(2,3) show ?thesis
      by (simp add: clockS_def flyS_def HorizClksScanline_def Let_def n)
  qed
  then show "\<not> flyS s" by simp
  show "\<not> fallS sig (clockS env s)"
    using assms(1) c by (auto simp add: fallS_def)
  show "nextState env sig s = s\<lparr>horizPos := (q + 1) mod 228, scanline := (q + 1) div 228\<rparr>"
    using assms(1) c by (simp add: nextState_def vsyncS_steady hsyncS_steady)
qed

lemma steady_run:
  "lastSignal s = sig \<Longrightarrow> horizPos s = q mod 228 \<Longrightarrow> scanline s = q div 228 \<Longrightarrow>
   (q + int k) div 228 \<le> ScanlinesTotal (spec s) \<Longrightarrow>
   fold (nextState env) (replicate k sig) s =
     s\<lparr>horizPos := (q + int k) mod 228, scanline := (q + int k) div 228\<rparr> \<and>
   noFrames env (replicate k sig) s"
proof (induction k arbitrary: s q)
  case 0
  then show ?case by simp
next
  case (Suc k)
  have le: "(q + 1) div 228 \<le> (q + int (Suc k)) div 228"
    by (rule zdiv_mono1) simp_all
  with Suc.prems(4) have b: "(q + 1) div 228 \<le> ScanlinesTotal (spec s)" by simp
  note st = steady_step(1) [OF Suc.prems(1,2,3) b, of env] steady_step(2) [OF Suc.prems(1,2,3) b]
    steady_step(3) [OF Suc.prems(1,2,3) b, of env]
  let ?s = "s\<lparr>horizPos := (q + 1) mod 228, scanline := (q + 1) div 228\<rparr>"
  have e: "q + 1 + int k = q + int (Suc k)" by simp
  have "fold (nextState env) (replicate k sig) ?s =
     ?s\<lparr>horizPos := (q + 1 + int k) mod 228, scanline := (q + 1 + int k) div 228\<rparr> \<and>
     noFrames env (replicate k sig) ?s"
    using Suc.prems by (intro Suc.IH [of ?s "q + 1"]) (simp_all add: e)
  with st show ?case by (simp add: e add.assoc)
qed

subsection \<open>The TIA step\<close>

lemma Step_clock_fields [simp]:
  "tv_sent (snd (Step_clock env t)) = tv_sent t"
  "mem (snd (Step_clock env t)) = mem t"
  "colorClock (snd (Step_clock env t)) = colorClock t"
  "motionClock (snd (Step_clock env t)) = motionClock t"
  "Hmove (snd (Step_clock env t)) = Hmove t"
  "rsync_u (snd (Step_clock env t)) = rsync_u t"
  "vsync (snd (Step_clock env t)) = vsync t"
  "vblank (snd (Step_clock env t)) = vblank t"
  "wsync (snd (Step_clock env t)) = wsync t"
  "Video (snd (Step_clock env t)) = Video t"
  by (simp_all add: Step_clock_def)

lemma Step_clock_hblank:
  "hblank (snd (Step_clock env t)) =
     (if (MatchEnd (colorClock t) 16 \<and> \<not> hm_isActive env (Hmove t)) \<or>
         (MatchEnd (colorClock t) 18 \<and> hm_isActive env (Hmove t)) then False else hblank t)"
  by (simp add: Step_clock_def)

lemma Step_motion_fields [simp]:
  "tv_sent (Step_motion t) = tv_sent t"
  "mem (Step_motion t) = mem t"
  "colorClock (Step_motion t) = colorClock t"
  "Hmove (Step_motion t) = Hmove t"
  "rsync_u (Step_motion t) = rsync_u t"
  "vsync (Step_motion t) = vsync t"
  "vblank (Step_motion t) = vblank t"
  "hblank (Step_motion t) = hblank t"
  "hsync (Step_motion t) = hsync t"
  "wsync (Step_motion t) = wsync t"
  "Video (Step_motion t) = Video t"
  by (simp_all add: Step_motion_def)

lemma Step_newline_fst:
  "fst (Step_newline env t) = (fst (rsync_tick (rsync_u t)) \<or> fst (Tick (colorClock t)))"
  by (simp add: Step_newline_def Let_def case_prod_beta)

lemma Step_newline_fields [simp]:
  "tv_sent (snd (Step_newline env t)) = tv_sent t"
  "mem (snd (Step_newline env t)) = mem t"
  "motionClock (snd (Step_newline env t)) = motionClock t"
  "vsync (snd (Step_newline env t)) = vsync t"
  "vblank (snd (Step_newline env t)) = vblank t"
  "hsync (snd (Step_newline env t)) = hsync t"
  by (simp_all add: Step_newline_def Let_def case_prod_beta)

lemma Step_newline_changes:
  "hblank (snd (Step_newline env t)) = (if fst (Step_newline env t) then True else hblank t)"
  "wsync (snd (Step_newline env t)) = (if fst (Step_newline env t) then False else wsync t)"
  "Hmove (snd (Step_newline env t)) = (if fst (Step_newline env t) then hm_reset env (Hmove t) else Hmove t)"
  "Video (snd (Step_newline env t)) = (if fst (Step_newline env t) then v_NewScanline env (Video t) else Video t)"
  "colorClock (snd (Step_newline env t)) =
     (if fst (rsync_tick (rsync_u t)) then ResetClock (colorClock t) else snd (Tick (colorClock t)))"
  by (simp_all add: Step_newline_def Let_def case_prod_beta)

lemma Step_newline_clock:
  "fst (Step_newline env t) \<Longrightarrow> Count (colorClock (snd (Step_newline env t))) = 0"
  by (simp add: Step_newline_changes Step_newline_fst ResetClock_def Tick_def split: if_splits)

lemma Step_video_fields [simp]:
  "tv_sent (Step_video env t) = tv_sent t"
  "mem (Step_video env t) = mem t"
  "colorClock (Step_video env t) = colorClock t"
  "motionClock (Step_video env t) = motionClock t"
  "rsync_u (Step_video env t) = rsync_u t"
  "vsync (Step_video env t) = vsync t"
  "vblank (Step_video env t) = vblank t"
  "hblank (Step_video env t) = hblank t"
  "hsync (Step_video env t) = hsync t"
  "wsync (Step_video env t) = wsync t"
  "Hmove (Step_video env t) = snd (hm_tick env (Hmove t))"
  by (simp_all add: Step_video_def Let_def case_prod_beta)

lemma Step_pixel_fields [simp]:
  "tv_sent (snd (Step_pixel env t)) = tv_sent t"
  "mem (snd (Step_pixel env t)) = mem t"
  "colorClock (snd (Step_pixel env t)) = colorClock t"
  "motionClock (snd (Step_pixel env t)) = motionClock t"
  "rsync_u (snd (Step_pixel env t)) = rsync_u t"
  "vsync (snd (Step_pixel env t)) = vsync t"
  "vblank (snd (Step_pixel env t)) = vblank t"
  "hblank (snd (Step_pixel env t)) = hblank t"
  "hsync (snd (Step_pixel env t)) = hsync t"
  "wsync (snd (Step_pixel env t)) = wsync t"
  "Hmove (snd (Step_pixel env t)) = Hmove t"
  by (simp_all add: Step_pixel_def Let_def case_prod_beta)

lemma Step_pixel_blank: "hblank t \<Longrightarrow> fst (Step_pixel env t) = VideoBlack env"
  by (simp add: Step_pixel_def)

lemma Step_signal_fields [simp]:
  "colorClock (snd (Step_signal env fp cb px t)) = colorClock t"
  "motionClock (snd (Step_signal env fp cb px t)) = motionClock t"
  "rsync_u (snd (Step_signal env fp cb px t)) = rsync_u t"
  "vsync (snd (Step_signal env fp cb px t)) = vsync t"
  "vblank (snd (Step_signal env fp cb px t)) = vblank t"
  "hblank (snd (Step_signal env fp cb px t)) = hblank t"
  "hsync (snd (Step_signal env fp cb px t)) = hsync t"
  "wsync (snd (Step_signal env fp cb px t)) = wsync t"
  "Hmove (snd (Step_signal env fp cb px t)) = Hmove t"
  "Video (snd (Step_signal env fp cb px t)) = Video t"
  by (simp_all add: Step_signal_def Let_def)

lemma Step_signal_sent:
  "tv_sent (snd (Step_signal env fp cb px t)) =
     tv_sent t @ [\<lparr>VSync = vsync t, VBlank = vblank t, FrontPorch = fp, HSync = hsync t,
                    CBurst = cb, Pixel = px, AudioUpdate = False, AudioData = 0\<rparr>]"
  by (simp add: Step_signal_def Let_def)

lemma Step_signal_result:
  "fst (Step_signal env fp cb px t) =
     (if tv_fails env (tv_sent t) \<lparr>VSync = vsync t, VBlank = vblank t, FrontPorch = fp, HSync = hsync t,
                    CBurst = cb, Pixel = px, AudioUpdate = False, AudioData = 0\<rparr> then None
      else Some (\<not> wsync t))"
  by (simp add: Step_signal_def Let_def)


text \<open>
  Claim C7. On every chip step a new line begins (the front porch is signalled to the
  television) exactly when the tick of the forced-resync unit fires or the colour clock
  wraps. Then the clock is at zero, HBLANK is on, the WSYNC hold is off, the
  horizontal-move unit has been reset (and ticked, as on every step) and the video
  sub-system has been told of the new scanline before its ticks. Without a new line the
  WSYNC hold stays as it was. The step returns the negation of the WSYNC hold as it is at
  the end of the step, unless it panics on an error of the television.
\<close>

theorem StepVideoCycle_new_line:
  "StepVideoCycle env tia = (res, tia') \<Longrightarrow>
   (FrontPorch (last (tv_sent tia')) = (fst (rsync_tick (rsync_u tia)) \<or> fst (Tick (colorClock tia)))) \<and>
   (FrontPorch (last (tv_sent tia')) \<longrightarrow>
      Count (colorClock tia') = 0 \<and> hblank tia' \<and> \<not> wsync tia' \<and>
      Hmove tia' = snd (hm_tick env (hm_reset env (Hmove tia))) \<and>
      Video tia' =
        v_TickFutures env (motionClock tia')
          (v_TickPlayfield env
            (if snd (fst (hm_tick env (hm_reset env (Hmove tia))))
             then v_TickSpritesForHMOVE env (fst (fst (hm_tick env (hm_reset env (Hmove tia)))))
                    (v_NewScanline env (Video tia))
             else v_NewScanline env (Video tia)))) \<and>
   (\<not> FrontPorch (last (tv_sent tia')) \<longrightarrow>
      wsync tia' = wsync tia \<and> colorClock tia' = snd (Tick (colorClock tia)) \<and>
      Hmove tia' = snd (hm_tick env (Hmove tia))) \<and>
   res = (if tv_fails env (tv_sent tia) (last (tv_sent tia')) then None else Some (\<not> wsync tia'))"
proof -
  assume "StepVideoCycle env tia = (res, tia')"
  then have r: "res = fst (StepVideoCycle env tia)" and t: "tia' = snd (StepVideoCycle env tia)"
    by simp_all
  have fp: "FrontPorch (last (tv_sent tia')) = (fst (rsync_tick (rsync_u tia)) \<or> fst (Tick (colorClock tia)))"
    by (simp add: t StepVideoCycle_def Let_def case_prod_beta Step_signal_sent Step_newline_fst)
  have nl: "fst (rsync_tick (rsync_u tia)) \<or> fst (Tick (colorClock tia)) \<Longrightarrow>
      Count (colorClock tia') = 0 \<and> hblank tia' \<and> \<not> wsync tia' \<and>
      Hmove tia' = snd (hm_tick env (hm_reset env (Hmove tia)))"
    by (simp add: t StepVideoCycle_def Let_def case_prod_beta Step_newline_changes(1,2,3)
          Step_newline_clock Step_newline_fst)
  have vid: "fst (rsync_tick (rsync_u tia)) \<or> fst (Tick (colorClock tia)) \<Longrightarrow>
      Video tia' =
        v_TickFutures env (motionClock tia')
          (v_TickPlayfield env
            (if snd (fst (hm_tick env (hm_reset env (Hmove tia))))
             then v_TickSpritesForHMOVE env (fst (fst (hm_tick env (hm_reset env (Hmove tia)))))
                    (v_NewScanline env (Video tia))
             else v_NewScanline env (Video tia)))"
    by (simp add: t StepVideoCycle_def Let_def case_prod_beta Step_newline_changes(1,3,4)
          Step_newline_fst Step_video_def Step_pixel_def)
  have nnl: "\<not> (fst (rsync_tick (rsync_u tia)) \<or> fst (Tick (colorClock tia))) \<Longrightarrow>
      wsync tia' = wsync tia \<and> colorClock tia' = snd (Tick (colorClock tia)) \<and>
      Hmove tia' = snd (hm_tick env (Hmove tia))"
    by (simp add: t StepVideoCycle_def Let_def case_prod_beta Step_newline_changes(2,3,5)
          Step_newline_fst)
  have rs: "res = (if tv_fails env (tv_sent tia) (last (tv_sent tia')) then None else Some (\<not> wsync tia'))"
    by (simp add: r t StepVideoCycle_def Let_def case_prod_beta Step_signal_sent Step_signal_result)
  from fp nl vid nnl rs show ?thesis by simp
qed

theorem StepVideoCycle_new_line_witness:
  "FrontPorch (last (tv_sent (snd (StepVideoCycle demoTiaEnv (demoTia 56 False))))) \<and>
   Count (colorClock (snd (StepVideoCycle demoTiaEnv (demoTia 56 False)))) = 0 \<and>
   hblank (snd (StepVideoCycle demoTiaEnv (demoTia 56 False))) \<and>
   fst (StepVideoCycle demoTiaEnv (demoTia 56 False)) = Some True \<and>
   \<not> FrontPorch (last (tv_sent (snd (StepVideoCycle demoTiaEnv (demoTia 20 False))))) \<and>
   fst (StepVideoCycle demoTiaEnv (demoTia 20 False)) = Some False"
  using StepVideoCycle_new_line [of demoTiaEnv "demoTia 56 False" "fst (StepVideoCycle demoTiaEnv (demoTia 56 False))"
          "snd (StepVideoCycle demoTiaEnv (demoTia 56 False))"]
        StepVideoCycle_new_line [of demoTiaEnv "demoTia 20 False" "fst (StepVideoCycle demoTiaEnv (demoTia 20 False))"
          "snd (StepVideoCycle demoTiaEnv (demoTia 20 False))"]
  by (simp add: demoTiaEnv_def demoTia_def rsync_tick_def Tick_def)

text \<open>
  Claim C8. On every chip step HBLANK is switched off at colour-clock count 16 when the
  horizontal-move unit is inactive and at count 18 when it is active, a new line in the
  same step switching it on again; otherwise it stays as it was. Whenever HBLANK is on
  at the end of the step, the pixel sent to the television is the blanked value.
\<close>

theorem StepVideoCycle_hblank:
  "StepVideoCycle env tia = (res, tia') \<Longrightarrow>
   hblank tia' =
     (if fst (rsync_tick (rsync_u tia)) \<or> fst (Tick (colorClock tia)) then True
      else if (MatchEnd (colorClock tia) 16 \<and> \<not> hm_isActive env (Hmove tia)) \<or>
              (MatchEnd (colorClock tia) 18 \<and> hm_isActive env (Hmove tia)) then False
      else hblank tia) \<and>
   (hblank tia' \<longrightarrow> Pixel (last (tv_sent tia')) = VideoBlack env)"
proof -
  assume "StepVideoCycle env tia = (res, tia')"
  then have t: "tia' = snd (StepVideoCycle env tia)" by simp
  have a: "hblank tia' =
     (if fst (rsync_tick (rsync_u tia)) \<or> fst (Tick (colorClock tia)) then True
      else if (MatchEnd (colorClock tia) 16 \<and> \<not> hm_isActive env (Hmove tia)) \<or>
              (MatchEnd (colorClock tia) 18 \<and> hm_isActive env (Hmove tia)) then False
      else hblank tia)"
    by (simp add: t StepVideoCycle_def Let_def case_prod_beta Step_newline_changes Step_newline_fst Step_clock_hblank)
  have b: "hblank tia' \<Longrightarrow> Pixel (last (tv_sent tia')) = VideoBlack env"
    by (simp add: t StepVideoCycle_def Let_def case_prod_beta Step_signal_sent Step_pixel_blank)
  from a b show ?thesis by simp
qed

theorem StepVideoCycle_hblank_witness:
  "hblank (snd (StepVideoCycle demoTiaEnv (demoTia 56 False))) \<and>
   Pixel (last (tv_sent (snd (StepVideoCycle demoTiaEnv (demoTia 56 False))))) = - 1 \<and>
   \<not> hblank (snd (StepVideoCycle demoTiaEnv (demoTia 16 False))) \<and>
   hblank (snd (StepVideoCycle demoTiaEnv (demoTia 18 False))) \<and>
   hblank (snd (StepVideoCycle demoTiaEnv (demoTia 16 True))) \<and>
   \<not> hblank (snd (StepVideoCycle demoTiaEnv (demoTia 18 True)))"
  using StepVideoCycle_hblank [of demoTiaEnv "demoTia 56 False" "fst (StepVideoCycle demoTiaEnv (demoTia 56 False))"
          "snd (StepVideoCycle demoTiaEnv (demoTia 56 False))"]
        StepVideoCycle_hblank [of demoTiaEnv "demoTia 16 False" "fst (StepVideoCycle demoTiaEnv (demoTia 16 False))"
          "snd (StepVideoCycle demoTiaEnv (demoTia 16 False))"]
        StepVideoCycle_hblank [of demoTiaEnv "demoTia 18 False" "fst (StepVideoCycle demoTiaEnv (demoTia 18 False))"
          "snd (StepVideoCycle demoTiaEnv (demoTia 18 False))"]
        StepVideoCycle_hblank [of demoTiaEnv "demoTia 16 True" "fst (StepVideoCycle demoTiaEnv (demoTia 16 True))"
          "snd (StepVideoCycle demoTiaEnv (demoTia 16 True))"]
        StepVideoCycle_hblank [of demoTiaEnv "demoTia 18 True" "fst (StepVideoCycle demoTiaEnv (demoTia 18 True))"
          "snd (StepVideoCycle demoTiaEnv (demoTia 18 True))"]
  by (simp add: demoTiaEnv_def demoTia_def rsync_tick_def Tick_def MatchEnd_def)


subsection \<open>Restoring a nil snapshot\<close>

text \<open>
  Claim C10. \<^verbatim>\<open>RestoreSnapshot\<close> called with a nil snapshot does nothing: the world after
  the call is the world before it, so the television state is unchanged and the log of
  calls to the collaborators, the refreshers among them, has no new entry.
\<close>

theorem RestoreSnapshot_nil: "RestoreSnapshot env None w = w"
  by (simp add: RestoreSnapshot_def)

subsection \<open>Unsupported requests\<close>

text \<open>
  Claim C9. A specification identifier that \<^verbatim>\<open>SetSpec\<close> does not recognise comes back as
  an error and the world is the one before the call; a state request that \<^verbatim>\<open>GetState\<close>
  (or \<^verbatim>\<open>RequestTVState\<close> of the headless television) does not recognise comes back as an
  error, with the value 0 (or nil). Both \<^verbatim>\<open>GetState\<close> and \<^verbatim>\<open>RequestTVState\<close> only read
  the television.
\<close>

theorem unsupported_request:
  "(ToUpper env sp \<noteq> ''NTSC'' \<and> ToUpper env sp \<noteq> ''PAL'' \<and> ToUpper env sp \<noteq> ''AUTO'' \<longrightarrow>
      SetSpec env sp w = (Some (UnsupportedSpec sp), w)) \<and>
   (request \<noteq> ReqFramenum \<and> request \<noteq> ReqScanline \<and> request \<noteq> ReqHorizPos \<longrightarrow>
      GetState request w = (0, Some (UnhandledStateRequest request))) \<and>
   (q \<noteq> hReqFramenum rq \<and> q \<noteq> hReqScanline rq \<and> q \<noteq> hReqHorizPos rq \<longrightarrow>
      RequestTVState rq q tv = (None, Some (UnknownTVRequest q)))"
  by (simp add: SetSpec_def GetState_def RequestTVState_def)

theorem unsupported_request_witness:
  "SetSpec plainEnv ''secam'' (newWorld plainEnv ''secam'') =
     (Some (UnsupportedSpec ''secam''), newWorld plainEnv ''secam'') \<and>
   GetState 3 (newWorld plainEnv ''secam'') = (0, Some (UnhandledStateRequest 3)) \<and>
   RequestTVState demoRequests ''COLOUR'' demoHeadlessTV = (None, Some (UnknownTVRequest ''COLOUR''))"
  using unsupported_request [of plainEnv "''secam''" "newWorld plainEnv ''secam''" 3 "''COLOUR''"
          demoRequests demoHeadlessTV]
  by (simp add: plainEnv_def asciiUpper_def upperChar_def ReqFramenum_def ReqScanline_def
        ReqHorizPos_def demoRequests_def)

subsection \<open>The concrete television\<close>

lemma up_ascii: "asciiUpper ''PAL'' = ''PAL''" "asciiUpper ''NTSC'' = ''NTSC''"
  "asciiUpper ''AUTO'' = ''AUTO''"
  by (simp_all add: asciiUpper_def upperChar_def)

lemma up_plain: "ToUpper plainEnv ''PAL'' = ''PAL''" "ToUpper plainEnv ''NTSC'' = ''NTSC''"
  "ToUpper plainEnv ''AUTO'' = ''AUTO''"
  by (simp_all add: plainEnv_def asciiUpper_def upperChar_def)

lemma plain_never: "neverFails plainEnv"
  by (simp add: neverFails_def plainEnv_def)

lemma plain_pal: "ScanlineTop (SpecPAL plainEnv) \<le> ScanlineBottom (SpecPAL plainEnv)"
  by (simp add: plainEnv_def stdPAL_def)

lemma tv_ntsc:
  "NewReference plainEnv ''NTSC'' = Inr (tvOf plainEnv ''NTSC'')"
  "core (cur (tvOf plainEnv ''NTSC'')) = core (zeroState\<lparr>spec := stdNTSC\<rparr>)"
  "signalHistoryIdx (cur (tvOf plainEnv ''NTSC'')) = 0"
  by (simp_all add: tvOf_def NewReference_def SetSpec_def newWorld_def Let_def alloc_array_def up_ascii
      selectSpec_def core_def beam_def zeroState_def modst_def cur_def plainEnv_def stdNTSC_def HorizClksScanline_def)

subsection \<open>Stability\<close>

lemma run_syncedFrameNum_mono:
  "syncedFrameNum (cur w) \<le> syncedFrameNum (cur (snd (run env sigs w)))"
proof (induction sigs arbitrary: w)
  case Nil
  then show ?case by simp
next
  case (Cons sig sigs)
  show ?case
  proof (cases "fst (Signal env sig w)")
    case None
    from Cons.IH [of "snd (Signal env sig w)"] Signal_syncedFrameNum_mono [of w env sig]
    show ?thesis unfolding run_Cons_ok [OF None] by simp
  next
    case (Some e)
    then have "run env (sig # sigs) w = Signal env sig w"
      by (cases "Signal env sig w") simp
    with Signal_syncedFrameNum_mono [of w env sig] show ?thesis by simp
  qed
qed

lemma SetSpec_success:
  assumes "neverFails env"
    and "ToUpper env sp = ''NTSC'' \<or> ToUpper env sp = ''AUTO'' \<or> ToUpper env sp = ''PAL''"
    and "ScanlineTop (SpecNTSC env) \<le> ScanlineBottom (SpecNTSC env)"
    and "ScanlineTop (SpecPAL env) \<le> ScanlineBottom (SpecPAL env)"
  shows "fst (SetSpec env sp w) = None"
  using assms
  by (auto simp add: SetSpec_def Let_def case_prod_beta selectSpec_def HorizClksScanline_def
        fanout_ok neverFails_def split: option.split)

lemma Reset_ok:
  assumes "fst (SetSpec env (reqSpecID w) w) = None"
  shows "fst (Reset env w) = None"
    and "beam (cur (snd (Reset env w))) =
         (0, 0, 0, 0, syncedFrame (cur w), noSignal, 0)"
proof -
  obtain w1 where s: "SetSpec env (reqSpecID w) w = (None, w1)"
    using assms by (cases "SetSpec env (reqSpecID w) w") simp
  then have w1: "w1 = snd (SetSpec env (reqSpecID w) w)" by simp
  show "fst (Reset env w) = None" by (simp add: Reset_def s)
  show "beam (cur (snd (Reset env w))) = (0, 0, 0, 0, syncedFrame (cur w), noSignal, 0)"
    by (simp add: Reset_def s beam_def) (simp add: w1 SetSpec_fields)
qed

lemma stableTV_facts:
  "fst (run plainEnv stableSigs (tvOf plainEnv ''NTSC'')) = None"
  "syncedFrameNum (cur stableTV) = 20"
  "reqSpecID stableTV = ''NTSC''"
proof -
  have i: "0 \<le> signalHistoryIdx (cur (tvOf plainEnv ''NTSC''))" by (simp add: tv_ntsc)
  note r = run_neverFails [OF plain_never up_plain(1) plain_pal i, of stableSigs]
  from r show "fst (run plainEnv stableSigs (tvOf plainEnv ''NTSC'')) = None" by simp
  have c: "core (cur stableTV) =
        core (fold (nextState plainEnv) stableSigs (zeroState\<lparr>spec := stdNTSC\<rparr>))"
    using r fold_nextState_cong [OF tv_ntsc(2), of plainEnv stableSigs] by (simp add: stableTV_def)
  have "syncedFrameNum (fold (nextState plainEnv) stableSigs (zeroState\<lparr>spec := stdNTSC\<rparr>)) = 20"
    unfolding stableSigs_def by code_simp
  with core_fields(4) [OF c] show "syncedFrameNum (cur stableTV) = 20" by simp
  have "rig stableTV = rig (tvOf plainEnv ''NTSC'')" by (simp add: stableTV_def run_rig)
  then have "reqSpecID stableTV = reqSpecID (tvOf plainEnv ''NTSC'')" by (rule rig_fields)
  also have "\<dots> = ''NTSC''"
    by (simp add: tvOf_def NewReference_def SetSpec_def newWorld_def Let_def alloc_array_def up_ascii
        case_prod_beta plainEnv_def modst_def)
  finally show "reqSpecID stableTV = ''NTSC''" .
qed

text \<open>
  The claim as stated, for the lifetime of the television, fails at \<^verbatim>\<open>Reset\<close>, which puts
  the synced-frame counter back to zero (line 229): a television made stable by 21
  VSYNC pulses is not stable after a reset.
\<close>

theorem IsStable_reset_counterexample:
  "NewReference plainEnv ''NTSC'' = Inr (tvOf plainEnv ''NTSC'') \<and>
   run plainEnv stableSigs (tvOf plainEnv ''NTSC'') = (None, stableTV) \<and>
   IsStable stableTV \<and>
   fst (Reset plainEnv stableTV) = None \<and>
   \<not> IsStable (snd (Reset plainEnv stableTV))"
proof -
  have s: "fst (SetSpec plainEnv (reqSpecID stableTV) stableTV) = None"
    by (rule SetSpec_success [OF plain_never])
       (simp_all add: stableTV_facts up_plain, simp_all add: plainEnv_def stdNTSC_def stdPAL_def)
  note r = Reset_ok [OF s]
  from beam_fields(4) [of "cur (snd (Reset plainEnv stableTV))", unfolded r(2)]
  have False if "IsStable (snd (Reset plainEnv stableTV))"
    using that r(2) by (simp add: IsStable_def beam_def stabilityThreshold_def)
  moreover have "run plainEnv stableSigs (tvOf plainEnv ''NTSC'') = (None, stableTV)"
    using stableTV_facts(1) by (simp add: stableTV_def prod_eq_iff)
  ultimately show ?thesis
    using r(1) by (auto simp add: tv_ntsc IsStable_def stableTV_facts stabilityThreshold_def)
qed

subsection \<open>The range of the horizontal position and of the scanline\<close>

lemma Signal_clock_spec_nofly:
  "\<not> flyS (cur w) \<Longrightarrow> spec (cur (snd (Signal_clock env w))) = spec (cur w)"
  by (auto simp add: Signal_clock_def Let_def flyS_def newScanline_cur)

lemma Signal_vsync_nofall:
  "\<not> fallS sig (cur w) \<Longrightarrow>
     spec (cur (snd (Signal_vsync env sig w))) = spec (cur w) \<and>
     scanline (cur (snd (Signal_vsync env sig w))) = scanline (cur w)"
  by (auto simp add: Signal_vsync_def fallS_def)

lemma Signal_clock_range:
  assumes pal: "0 \<le> ScanlinesTotal (SpecPAL env)" and ntsc: "0 \<le> ScanlinesTotal (SpecNTSC env)"
    and r: "0 \<le> scanline (cur w)" "scanline (cur w) \<le> ScanlinesTotal (spec (cur w))"
    and ok: "fst (Signal_clock env w) = None"
  shows "0 \<le> scanline (cur (snd (Signal_clock env w))) \<and>
         scanline (cur (snd (Signal_clock env w))) \<le> ScanlinesTotal (spec (cur (snd (Signal_clock env w))))"
proof (cases "flyS (cur w)")
  case True
  with Signal_clock_ok [OF ok] have "scanline (cur (snd (Signal_clock env w))) = 0"
    by (simp add: flyS_def)
  moreover from r have "0 \<le> ScanlinesTotal (spec (cur w))" by simp
  ultimately show ?thesis
    using Signal_clock_spec [of env w] pal ntsc by auto
next
  case False
  with Signal_clock_ok [OF ok] Signal_clock_spec_nofly [OF False, of env] r show ?thesis
    by (auto simp add: flyS_def)
qed

lemma Signal_vsync_range:
  assumes pal: "0 \<le> ScanlinesTotal (SpecPAL env)" and ntsc: "0 \<le> ScanlinesTotal (SpecNTSC env)"
    and r: "0 \<le> scanline (cur w)" "scanline (cur w) \<le> ScanlinesTotal (spec (cur w))"
    and ok: "fst (Signal_vsync env sig w) = None"
  shows "0 \<le> scanline (cur (snd (Signal_vsync env sig w))) \<and>
         scanline (cur (snd (Signal_vsync env sig w))) \<le> ScanlinesTotal (spec (cur (snd (Signal_vsync env sig w))))"
proof (cases "fallS sig (cur w)")
  case True
  with Signal_vsync_ok [OF ok] have "scanline (cur (snd (Signal_vsync env sig w))) = 0"
    by (simp add: fallS_def)
  moreover from r have "0 \<le> ScanlinesTotal (spec (cur w))" by simp
  ultimately show ?thesis
    using Signal_vsync_spec [of env sig w] pal ntsc by auto
next
  case False
  from Signal_vsync_nofall [OF False, of env] r show ?thesis by simp
qed

lemma Signal_range:
  assumes pal: "0 \<le> ScanlinesTotal (SpecPAL env)" and ntsc: "0 \<le> ScanlinesTotal (SpecNTSC env)"
    and r: "inRange (cur w)"
  shows "horizInRange (cur (snd (Signal env sig w)))"
    and "fst (Signal env sig w) = None \<Longrightarrow> inRange (cur (snd (Signal env sig w)))"
proof -
  show h: "horizInRange (cur (snd (Signal env sig w)))"
    using r Signal_horizPos [of w env sig] by (simp add: inRange_def horizInRange_def)
  assume ok: "fst (Signal env sig w) = None"
  let ?a = "snd (Signal_audio env sig w)"
  let ?x = "Signal_examine env sig ?a"
  let ?c = "snd (Signal_clock env ?x)"
  let ?v = "snd (Signal_vsync env sig ?c)"
  let ?p = "snd (Signal_pixel env sig (Signal_hsync sig ?v))"
  note d = Signal_okD [OF ok]
  from r have rx: "0 \<le> scanline (cur ?x)" "scanline (cur ?x) \<le> ScanlinesTotal (spec (cur ?x))"
    by (simp_all add: inRange_def Signal_examine_cur Signal_audio_cur)
  note c = Signal_clock_range [OF pal ntsc rx d(2)]
  note v = Signal_vsync_range [OF pal ntsc conjunct1 [OF c] conjunct2 [OF c] d(3)]
  have "scanline (cur (snd (Signal env sig w))) = scanline (cur ?v)"
    and "spec (cur (snd (Signal env sig w))) = spec (cur ?v)"
    by (simp_all add: d(5) Signal_history_fields Signal_history_spec Signal_pixel_cur Signal_hsync_fields)
  with v h show "inRange (cur (snd (Signal env sig w)))" by (simp add: inRange_def)
qed

lemma run_range:
  assumes pal: "0 \<le> ScanlinesTotal (SpecPAL env)" and ntsc: "0 \<le> ScanlinesTotal (SpecNTSC env)"
  shows "inRange (cur w) \<Longrightarrow>
     horizInRange (cur (snd (run env sigs w))) \<and>
     (fst (run env sigs w) = None \<longrightarrow> inRange (cur (snd (run env sigs w))))"
proof (induction sigs arbitrary: w)
  case Nil
  then show ?case by (simp add: inRange_def)
next
  case (Cons sig sigs)
  note s = Signal_range [OF pal ntsc Cons.prems, of sig]
  show ?case
  proof (cases "fst (Signal env sig w)")
    case None
    from Cons.IH [OF s(2) [OF None]] show ?thesis unfolding run_Cons_ok [OF None] .
  next
    case (Some e)
    then have "run env (sig # sigs) w = Signal env sig w"
      by (cases "Signal env sig w") simp
    with s(1) Some show ?thesis by simp
  qed
qed

lemma SetSpec_unrecognized:
  "ToUpper env sp \<noteq> ''NTSC'' \<Longrightarrow> ToUpper env sp \<noteq> ''PAL'' \<Longrightarrow> ToUpper env sp \<noteq> ''AUTO'' \<Longrightarrow>
     SetSpec env sp w = (Some (UnsupportedSpec sp), w)"
  by (simp add: SetSpec_def)

lemma SetSpec_recognized:
  assumes "fst (SetSpec env sp w) = None"
  shows "ToUpper env sp = ''NTSC'' \<or> ToUpper env sp = ''PAL'' \<or> ToUpper env sp = ''AUTO''"
proof (rule ccontr)
  assume "\<not> ?thesis"
  then have "SetSpec env sp w = (Some (UnsupportedSpec sp), w)"
    by (intro SetSpec_unrecognized) simp_all
  with assms show False by simp
qed

lemma NewReference_range:
  assumes pal: "0 \<le> ScanlinesTotal (SpecPAL env)" and ntsc: "0 \<le> ScanlinesTotal (SpecNTSC env)"
    and n: "NewReference env sp = Inr w"
  shows "inRange (cur w)"
proof -
  let ?w0 = "newWorld env sp"
  from n have ok: "fst (SetSpec env sp ?w0) = None" and w: "w = (snd (SetSpec env sp ?w0))\<lparr>renderers := []\<rparr>"
    by (auto simp add: NewReference_def split: prod.splits option.splits)
  have z: "cur ?w0 = zeroState" by (simp add: newWorld_def cur_def)
  note rec = SetSpec_recognized [OF ok]
  have "horizPos (cur w) = 0" "scanline (cur w) = 0"
    by (simp_all add: w SetSpec_fields z zeroState_def)
  moreover have "spec (cur w) = SpecNTSC env \<or> spec (cur w) = SpecPAL env"
    using rec by (auto simp add: w SetSpec_spec)
  ultimately show ?thesis
    using pal ntsc by (auto simp add: inRange_def horizInRange_def HorizClksScanline_def)
qed

lemma Reset_range:
  assumes pal: "0 \<le> ScanlinesTotal (SpecPAL env)" and ntsc: "0 \<le> ScanlinesTotal (SpecNTSC env)"
    and n: "Reset env w0 = (None, w)"
  shows "inRange (cur w)"
proof -
  from n have ok: "fst (SetSpec env (reqSpecID w0) w0) = None"
    by (auto simp add: Reset_def split: prod.splits option.splits)
  from n have w: "w = snd (Reset env w0)" by simp
  note r = Reset_ok [OF ok]
  note rec = SetSpec_recognized [OF ok]
  have "spec (cur w) = spec (cur (snd (SetSpec env (reqSpecID w0) w0)))"
    using ok by (cases "SetSpec env (reqSpecID w0) w0") (simp add: w Reset_def)
  with rec have "spec (cur w) = SpecNTSC env \<or> spec (cur w) = SpecPAL env"
    by (auto simp add: SetSpec_spec)
  moreover from r(2) have "horizPos (cur w) = 0" "scanline (cur w) = 0"
    by (simp_all add: w beam_def)
  ultimately show ?thesis
    using pal ntsc by (auto simp add: inRange_def horizInRange_def HorizClksScanline_def)
qed

lemma newFrame_commit_error:
  assumes "specChange env (countSyncedFrame w) = (None, w2)" and "fst (commit env w2) = Some e"
  shows "newFrame env b w = (Some e, snd (commit env w2))"
  using assms by (cases "commit env w2") (simp add: newFrame_def)

lemma Signal_clock_error:
  assumes "fst (Signal_audio env sig w) = None"
    and "fst (Signal_clock env (Signal_examine env sig (snd (Signal_audio env sig w)))) = Some e"
  shows "Signal env sig w = Signal_clock env (Signal_examine env sig (snd (Signal_audio env sig w)))"
proof -
  obtain wa where a: "Signal_audio env sig w = (None, wa)"
    using assms(1) by (cases "Signal_audio env sig w") simp
  obtain wc where c: "Signal_clock env (Signal_examine env sig wa) = (Some e, wc)"
    using assms(2) a by (cases "Signal_clock env (Signal_examine env sig wa)") simp
  show ?thesis by (simp add: Signal_def a c)
qed

subsection \<open>The edges of HSYNC and of VSYNC\<close>

lemma Signal_after_hsync:
  assumes "reachesHSync env sig w"
  shows "\<exists>l. beam (cur (snd (Signal env sig w))) =
           beam ((hsyncS sig (cur (snd (Signal_vsync env sig
             (snd (Signal_clock env (Signal_examine env sig (snd (Signal_audio env sig w)))))))))
              \<lparr>lastSignal := l\<rparr>)"
proof -
  let ?a = "snd (Signal_audio env sig w)"
  let ?c = "snd (Signal_clock env (Signal_examine env sig ?a))"
  let ?v = "snd (Signal_vsync env sig ?c)"
  obtain wa where a: "Signal_audio env sig w = (None, wa)"
    using assms by (cases "Signal_audio env sig w") (simp add: reachesHSync_def)
  obtain wc where c: "Signal_clock env (Signal_examine env sig wa) = (None, wc)"
    using assms a by (cases "Signal_clock env (Signal_examine env sig wa)") (simp add: reachesHSync_def)
  obtain wv where v: "Signal_vsync env sig wc = (None, wv)"
    using assms a c by (cases "Signal_vsync env sig wc") (simp add: reachesHSync_def)
  obtain ep wp where p: "Signal_pixel env sig (Signal_hsync sig wv) = (ep, wp)" by force
  have wp: "cur wp = hsyncS sig (cur wv)"
    using Signal_pixel_cur [of env sig "Signal_hsync sig wv"] by (simp add: p Signal_hsync_cur)
  show ?thesis
  proof (cases ep)
    case None
    then have "Signal env sig w = Signal_history env sig wp" by (simp add: Signal_def a c v p)
    then have "beam (cur (snd (Signal env sig w))) = beam ((hsyncS sig (cur wv))\<lparr>lastSignal := sig\<rparr>)"
      by (simp add: Signal_history_beam wp)
    then show ?thesis by (auto simp add: a c v)
  next
    case (Some e)
    then have "Signal env sig w = (Some e, wp)" by (simp add: Signal_def a c v p)
    then have "beam (cur (snd (Signal env sig w))) = beam (hsyncS sig (cur wv))"
      by (simp add: wp)
    then show ?thesis
      by (intro exI [of _ "lastSignal (hsyncS sig (cur wv))"]) (simp add: a c v)
  qed
qed

lemma Signal_hsync_edges:
  assumes "reachesHSync env sig w"
  shows "horizPos (cur (snd (Signal env sig w))) =
          (if HSync sig \<and> \<not> HSync (lastSignal (cur w)) then 16
           else if \<not> HSync sig \<and> HSync (lastSignal (cur w)) then 36
           else if HorizClksScanline \<le> horizPos (cur w) + 1 then 0 else horizPos (cur w) + 1)"
    and "vsyncCount (cur (snd (Signal env sig w))) =
          (if VSync sig \<and> \<not> VSync (lastSignal (cur w)) then 0 else vsyncCount (cur w)) +
          (if HSync sig \<and> \<not> HSync (lastSignal (cur w)) \<and> (VSync sig \<or> VSync (lastSignal (cur w)))
           then 1 else 0)"
proof -
  let ?v = "snd (Signal_vsync env sig
             (snd (Signal_clock env (Signal_examine env sig (snd (Signal_audio env sig w))))))"
  from Signal_after_hsync [OF assms] obtain l where
    b: "beam (cur (snd (Signal env sig w))) = beam ((hsyncS sig (cur ?v))\<lparr>lastSignal := l\<rparr>)"
    by blast
  have v: "lastSignal (cur ?v) = lastSignal (cur w)"
    "horizPos (cur ?v) = (if HorizClksScanline \<le> horizPos (cur w) + 1 then 0 else horizPos (cur w) + 1)"
    "vsyncCount (cur ?v) = (if VSync sig \<and> \<not> VSync (lastSignal (cur w)) then 0 else vsyncCount (cur w))"
    by (simp_all add: Signal_vsync_always Signal_clock_always Signal_examine_cur Signal_audio_cur)
  from beam_fields(1) [OF b] v
  show "horizPos (cur (snd (Signal env sig w))) =
          (if HSync sig \<and> \<not> HSync (lastSignal (cur w)) then 16
           else if \<not> HSync sig \<and> HSync (lastSignal (cur w)) then 36
           else if HorizClksScanline \<le> horizPos (cur w) + 1 then 0 else horizPos (cur w) + 1)"
    by (simp add: hsyncS_def)
  from beam_fields(7) [OF b] v
  show "vsyncCount (cur (snd (Signal env sig w))) =
          (if VSync sig \<and> \<not> VSync (lastSignal (cur w)) then 0 else vsyncCount (cur w)) +
          (if HSync sig \<and> \<not> HSync (lastSignal (cur w)) \<and> (VSync sig \<or> VSync (lastSignal (cur w)))
           then 1 else 0)"
    by (simp add: hsyncS_def)
qed

lemma success_reaches: "fst (Signal env sig w) = None \<Longrightarrow> reachesHSync env sig w"
  using Signal_okD [of env sig w] by (simp add: reachesHSync_def)

text \<open>
  Claim C6, as amended. On every \<^verbatim>\<open>Signal\<close> call that is not cut short by an error
  before the HSYNC handling, a rising edge of HSYNC puts the horizontal position to 16
  and adds one to the consecutive-vsync counter (as the VSYNC handling of the same call
  has left it) when this event or the previous one has VSYNC on, and leaves the counter
  alone otherwise; a falling edge of HSYNC puts the horizontal position to 36. The
  previous event is the last one that \<^verbatim>\<open>Signal\<close> has recorded.
\<close>

theorem Signal_hsync_edge:
  "reachesHSync env sig w \<Longrightarrow>
   (HSync sig \<and> \<not> HSync (lastSignal (cur w)) \<longrightarrow>
      horizPos (cur (snd (Signal env sig w))) = 16 \<and>
      vsyncCount (cur (snd (Signal env sig w))) =
        (if VSync sig \<and> \<not> VSync (lastSignal (cur w)) then 0 else vsyncCount (cur w)) +
        (if VSync sig \<or> VSync (lastSignal (cur w)) then 1 else 0)) \<and>
   (\<not> HSync sig \<and> HSync (lastSignal (cur w)) \<longrightarrow> horizPos (cur (snd (Signal env sig w))) = 36)"
  by (simp add: Signal_hsync_edges)

theorem Signal_hsync_edge_witness:
  "reachesHSync plainEnv sigVH (tvOf plainEnv ''NTSC'') \<and>
   horizPos (cur (snd (Signal plainEnv sigVH (tvOf plainEnv ''NTSC'')))) = 16 \<and>
   vsyncCount (cur (snd (Signal plainEnv sigVH (tvOf plainEnv ''NTSC'')))) = 1 \<and>
   reachesHSync plainEnv noSignal (snd (Signal plainEnv sigVH (tvOf plainEnv ''NTSC''))) \<and>
   horizPos (cur (snd (Signal plainEnv noSignal
     (snd (Signal plainEnv sigVH (tvOf plainEnv ''NTSC'')))))) = 36"
proof -
  let ?w = "tvOf plainEnv ''NTSC''"
  let ?w1 = "snd (Signal plainEnv sigVH ?w)"
  have i: "0 \<le> signalHistoryIdx (cur ?w)" by (simp add: tv_ntsc)
  note s1 = Signal_success [OF plain_never up_plain(1) plain_pal i, of sigVH]
  note s2 = Signal_success [OF plain_never up_plain(1) plain_pal conjunct2 [OF s1], of noSignal]
  have r1: "reachesHSync plainEnv sigVH ?w" by (rule success_reaches [OF conjunct1 [OF s1]])
  have r2: "reachesHSync plainEnv noSignal ?w1" by (rule success_reaches [OF conjunct1 [OF s2]])
  have l0: "lastSignal (cur ?w) = noSignal" "vsyncCount (cur ?w) = 0"
    using core_fields(6,7) [OF tv_ntsc(2)] by (simp_all add: zeroState_def)
  have l1: "lastSignal (cur ?w1) = sigVH" by (rule Signal_ok_always(1) [OF conjunct1 [OF s1]])
  have f: "HSync sigVH" "VSync sigVH" "\<not> HSync noSignal" "\<not> VSync noSignal"
    by (simp_all add: sigVH_def noSignal_def)
  from Signal_hsync_edge [OF r1] Signal_hsync_edge [OF r2] r1 r2 show ?thesis
    by (simp add: l0 l1 f)
qed

lemma muted_tv:
  "NewReference mutedEnv ''NTSC'' = Inr (tvOf mutedEnv ''NTSC'')"
  "horizPos (cur mutedTV) = 0"
  "lastSignal (cur mutedTV) = noSignal"
  "mixers mutedTV = [0]"
  by (simp_all add: mutedTV_def AddAudioMixer_def tvOf_def NewReference_def SetSpec_def newWorld_def
      Let_def alloc_array_def up_ascii selectSpec_def zeroState_def modst_def cur_def
      mutedEnv_def plainEnv_def stdNTSC_def HorizClksScanline_def)

text \<open>
  The claim as stated, for every call, fails at a call that an error cuts short before
  line 319: \<^verbatim>\<open>Signal\<close> returns the error of a mixer at line 260, and the rising edge of
  HSYNC in the same event leaves the horizontal position where it was.
\<close>

theorem hsync_edge_counterexample:
  "NewReference mutedEnv ''NTSC'' = Inr (tvOf mutedEnv ''NTSC'') \<and>
   HSync sigHA \<and> \<not> HSync (lastSignal (cur mutedTV)) \<and>
   fst (Signal mutedEnv sigHA mutedTV) = Some (CollaboratorError (0, SetAudio 0)) \<and>
   horizPos (cur (snd (Signal mutedEnv sigHA mutedTV))) = 0"
proof -
  have a: "Signal_audio mutedEnv sigHA mutedTV =
      (Some (CollaboratorError (0, SetAudio 0)), mutedTV\<lparr>trace := trace mutedTV @ [(0, SetAudio 0)]\<rparr>)"
    by (simp add: Signal_audio_def muted_tv(4) sigHA_def noSignal_def mutedEnv_def isSetAudio_def)
  then have "Signal mutedEnv sigHA mutedTV =
      (Some (CollaboratorError (0, SetAudio 0)), mutedTV\<lparr>trace := trace mutedTV @ [(0, SetAudio 0)]\<rparr>)"
    by (simp add: Signal_def)
  then show ?thesis
    using muted_tv(1,2,3) by (simp add: sigHA_def noSignal_def)
qed

subsection \<open>Stability over the lifetime of a television\<close>

lemma Snapshot_syncedFrameNum:
  "syncedFrameNum (cur (snd (Snapshot w))) = syncedFrameNum (cur w)"
  by (simp add: Snapshot_def Let_def alloc_array_def cur_def)

lemma Reset_error: "fst (Reset env w) \<noteq> None \<Longrightarrow> snd (Reset env w) = snd (SetSpec env (reqSpecID w) w)"
  by (cases "SetSpec env (reqSpecID w) w") (auto simp add: Reset_def split: option.splits)

lemma perform_syncedFrameNum_mono:
  "\<not> replaces env rq w \<Longrightarrow> syncedFrameNum (cur w) \<le> syncedFrameNum (cur (perform env rq w))"
proof (cases rq)
  case (DoSignal sig)
  then show ?thesis using Signal_syncedFrameNum_mono [of w env sig] by (simp add: perform_def)
next
  case (DoSetSpec sp)
  then show ?thesis by (simp add: perform_def SetSpec_fields)
next
  case DoReset
  assume "\<not> replaces env rq w"
  with DoReset have "fst (Reset env w) \<noteq> None" by (simp add: replaces_def)
  from Reset_error [OF this] DoReset show ?thesis by (simp add: perform_def SetSpec_fields)
next
  case (DoRestoreSnapshot snap)
  assume "\<not> replaces env rq w"
  with DoRestoreSnapshot have "snap = None" by (cases snap) (simp_all add: replaces_def)
  with DoRestoreSnapshot show ?thesis by (simp add: perform_def RestoreSnapshot_def)
qed (simp_all add: perform_def AddPixelRenderer_def AddPixelRefresher_def AddFrameTrigger_def
       AddAudioMixer_def Snapshot_syncedFrameNum)

lemma lifetime_syncedFrameNum_mono:
  "noReplace env rqs w \<Longrightarrow> syncedFrameNum (cur w) \<le> syncedFrameNum (cur (lifetime env rqs w))"
proof (induction rqs arbitrary: w)
  case Nil
  then show ?case by (simp add: lifetime_def)
next
  case (Cons rq rqs)
  from Cons.prems have a: "\<not> replaces env rq w" and b: "noReplace env rqs (perform env rq w)"
    by simp_all
  from perform_syncedFrameNum_mono [OF a] Cons.IH [OF b] show ?case by (simp add: lifetime_def)
qed

lemma Reset_unlatches: "fst (Reset env w) = None \<Longrightarrow> syncedFrameNum (cur (snd (Reset env w))) = 0"
  using Reset_ok(2) [of env w] by (auto simp add: Reset_def beam_def split: prod.splits option.splits)

lemma RestoreSnapshot_cur: "cur (RestoreSnapshot env (Some p) w) = states w p"
  by (simp add: RestoreSnapshot_def Let_def cur_def)

text \<open>
  Claim C4, as amended. \<^verbatim>\<open>IsStable\<close> returns false exactly while the synced-frame counter
  is below the stability threshold. Once it has returned true it returns true after every
  further call of \<^verbatim>\<open>Signal\<close> (with synced frames or not), \<^verbatim>\<open>SetSpec\<close>, \<^verbatim>\<open>AddPixelRenderer\<close>,
  \<^verbatim>\<open>AddPixelRefresher\<close>, \<^verbatim>\<open>AddFrameTrigger\<close>, \<^verbatim>\<open>AddAudioMixer\<close>, \<^verbatim>\<open>Snapshot\<close>, \<^verbatim>\<open>GetState\<close> and
  \<^verbatim>\<open>IsStable\<close>, of \<^verbatim>\<open>RestoreSnapshot\<close> with nil and of a \<^verbatim>\<open>Reset\<close> that returns an error,
  whether the calls return errors or not. The two other calls replace the counter: after
  a \<^verbatim>\<open>Reset\<close> that returns no error \<^verbatim>\<open>IsStable\<close> is false, and after \<^verbatim>\<open>RestoreSnapshot\<close> of a
  snapshot that is not nil it answers for the counter of the snapshot.
\<close>

theorem IsStable_latch:
  "(IsStable w \<longleftrightarrow> stabilityThreshold \<le> syncedFrameNum (cur w)) \<and>
   (IsStable w \<longrightarrow> noReplace env rqs w \<longrightarrow> IsStable (lifetime env rqs w)) \<and>
   (fst (Reset env w) = None \<longrightarrow> \<not> IsStable (snd (Reset env w))) \<and>
   (IsStable (RestoreSnapshot env (Some p) w) \<longleftrightarrow> stabilityThreshold \<le> syncedFrameNum (states w p))"
  using lifetime_syncedFrameNum_mono [of env rqs w] Reset_unlatches [of env w]
  by (auto simp add: IsStable_def RestoreSnapshot_cur stabilityThreshold_def)

theorem IsStable_latch_witness:
  "IsStable stableTV \<and> noReplace plainEnv laterCalls stableTV \<and>
   IsStable (lifetime plainEnv laterCalls stableTV) \<and>
   fst (Reset plainEnv stableTV) = None \<and> \<not> IsStable (snd (Reset plainEnv stableTV))"
proof -
  have s: "fst (SetSpec plainEnv (reqSpecID stableTV) stableTV) = None"
    by (rule SetSpec_success [OF plain_never])
       (simp_all add: stableTV_facts up_plain, simp_all add: plainEnv_def stdNTSC_def stdPAL_def)
  have r: "fst (Reset plainEnv stableTV) = None" by (rule Reset_ok(1) [OF s])
  have a: "IsStable stableTV" by (simp add: IsStable_def stableTV_facts stabilityThreshold_def)
  have b: "noReplace plainEnv laterCalls stableTV" by (simp add: laterCalls_def replaces_def)
  from IsStable_latch [of stableTV plainEnv laterCalls 0] a b r show ?thesis by blast
qed

subsection \<open>The ranges over all calls\<close>

lemma fanout_error: "fst (fanout env rs c t) = Some e \<Longrightarrow> \<exists>r. e = CollaboratorError (r, c)"
  by (induction rs arbitrary: t) (auto split: if_splits)

lemma commit_error: "fst (commit env w) = Some e \<Longrightarrow> \<not> isFrameTriggerError e"
proof -
  assume a: "fst (commit env w) = Some e"
  obtain z g where c: "rz_commit env (resizer w) (cur w) = (z, g)" by force
  show ?thesis
  proof (cases g)
    case None
    with a c show ?thesis by (simp add: commit_def)
  next
    case (Some tb)
    obtain t b where tb: "tb = (t, b)" by force
    from a c Some tb obtain sp x y tr where "fst (fanout env (renderers w) (Resize sp x y) tr) = Some e"
      by (auto simp add: commit_def Let_def case_prod_beta)
    from fanout_error [OF this] show ?thesis by (auto simp add: isFrameTriggerError_def)
  qed
qed

lemma specChange_error: "fst (specChange env w) = Some e \<Longrightarrow> isPanic e"
  by (auto simp add: specChange_def case_prod_beta split: if_splits option.splits)

lemma newFrame_trigger_error:
  assumes "fst (newFrame env b w) = Some e" and "isFrameTriggerError e"
  shows "scanline (cur (snd (newFrame env b w))) = 0"
proof -
  obtain e1 w1 where s: "specChange env (countSyncedFrame w) = (e1, w1)" by force
  obtain e2 w2 where c: "commit env w1 = (e2, w2)" by force
  have "e1 = None"
  proof (cases e1)
    case (Some x)
    with s assms(1) have "e = x" by (simp add: newFrame_def)
    moreover from specChange_error [of env "countSyncedFrame w" x] s Some have "isPanic x" by simp
    ultimately show ?thesis using assms(2) by (auto simp add: isPanic_def isFrameTriggerError_def)
  qed simp
  moreover have "e2 = None"
  proof (cases e2)
    case (Some x)
    with s c \<open>e1 = None\<close> assms(1) have "e = x" by (simp add: newFrame_def)
    moreover from commit_error [of env w1 x] c Some have "\<not> isFrameTriggerError x" by simp
    ultimately show ?thesis using assms(2) by simp
  qed simp
  ultimately show ?thesis
    using s c by (simp add: newFrame_def Let_def case_prod_beta split: option.split)
qed

lemma specChange_spec_up:
  "ToUpper env ''PAL'' = ''PAL'' \<Longrightarrow>
   spec (cur (snd (specChange env w))) = spec (cur w) \<or> spec (cur (snd (specChange env w))) = SpecPAL env"
  by (simp add: specChange_def case_prod_beta SetSpec_spec split: option.split)

lemma newFrame_spec_up:
  assumes "ToUpper env ''PAL'' = ''PAL''"
  shows "spec (cur (snd (newFrame env b w))) = spec (cur w) \<or>
         spec (cur (snd (newFrame env b w))) = SpecPAL env"
proof -
  have "spec (cur (snd (newFrame env b w))) = spec (cur (snd (specChange env (countSyncedFrame w))))"
    by (simp add: newFrame_def Let_def case_prod_beta commit_spec split: option.split)
  moreover have "spec (cur (countSyncedFrame w)) = spec (cur w)"
    by (simp add: countSyncedFrame_cur)
  ultimately show ?thesis
    using specChange_spec_up [OF assms, of "countSyncedFrame w"] by simp
qed

text \<open>The scanline and the specification after \<^verbatim>\<open>Signal\<close> are those that the last block
  reached among the first three has left.\<close>

lemma Signal_scanline_spec:
  "fst (Signal_audio env sig w) \<noteq> None \<Longrightarrow> cur (snd (Signal env sig w)) = cur w"
  "fst (Signal_audio env sig w) = None \<Longrightarrow>
   fst (Signal_clock env (Signal_examine env sig (snd (Signal_audio env sig w)))) \<noteq> None \<Longrightarrow>
     snd (Signal env sig w) = snd (Signal_clock env (Signal_examine env sig (snd (Signal_audio env sig w))))"
  "fst (Signal_audio env sig w) = None \<Longrightarrow>
   fst (Signal_clock env (Signal_examine env sig (snd (Signal_audio env sig w)))) = None \<Longrightarrow>
     scanline (cur (snd (Signal env sig w))) =
       scanline (cur (snd (Signal_vsync env sig
         (snd (Signal_clock env (Signal_examine env sig (snd (Signal_audio env sig w)))))))) \<and>
     spec (cur (snd (Signal env sig w))) =
       spec (cur (snd (Signal_vsync env sig
         (snd (Signal_clock env (Signal_examine env sig (snd (Signal_audio env sig w))))))))"
proof -
  obtain ea wa where a: "Signal_audio env sig w = (ea, wa)" by force
  obtain ec wc where c: "Signal_clock env (Signal_examine env sig wa) = (ec, wc)" by force
  obtain ev wv where v: "Signal_vsync env sig wc = (ev, wv)" by force
  obtain ep wp where p: "Signal_pixel env sig (Signal_hsync sig wv) = (ep, wp)" by force
  have wa: "cur wa = cur w" using Signal_audio_cur [of env sig w] by (simp add: a)
  have wp: "cur wp = hsyncS sig (cur wv)"
    using Signal_pixel_cur [of env sig "Signal_hsync sig wv"] by (simp add: p Signal_hsync_cur)
  have hs: "scanline (hsyncS sig (cur wv)) = scanline (cur wv)" "spec (hsyncS sig (cur wv)) = spec (cur wv)"
    by (simp_all add: hsyncS_def)
  show "fst (Signal_audio env sig w) \<noteq> None \<Longrightarrow> cur (snd (Signal env sig w)) = cur w"
    using a wa by (auto simp add: Signal_def)
  show "fst (Signal_audio env sig w) = None \<Longrightarrow>
   fst (Signal_clock env (Signal_examine env sig (snd (Signal_audio env sig w)))) \<noteq> None \<Longrightarrow>
     snd (Signal env sig w) = snd (Signal_clock env (Signal_examine env sig (snd (Signal_audio env sig w))))"
    using a c by (auto simp add: Signal_def)
  show "fst (Signal_audio env sig w) = None \<Longrightarrow>
   fst (Signal_clock env (Signal_examine env sig (snd (Signal_audio env sig w)))) = None \<Longrightarrow>
     scanline (cur (snd (Signal env sig w))) =
       scanline (cur (snd (Signal_vsync env sig
         (snd (Signal_clock env (Signal_examine env sig (snd (Signal_audio env sig w)))))))) \<and>
     spec (cur (snd (Signal env sig w))) =
       spec (cur (snd (Signal_vsync env sig
         (snd (Signal_clock env (Signal_examine env sig (snd (Signal_audio env sig w))))))))"
  proof -
    assume "fst (Signal_audio env sig w) = None"
      and "fst (Signal_clock env (Signal_examine env sig (snd (Signal_audio env sig w)))) = None"
    with a c have e: "ea = None" "ec = None" by simp_all
    show ?thesis
    proof (cases ev)
      case (Some x)
      then show ?thesis using a c v e by (simp add: Signal_def)
    next
      case None
      show ?thesis
      proof (cases ep)
        case (Some x)
        then show ?thesis using a c v p e None wp hs by (simp add: Signal_def)
      next
        case n: None
        have "Signal env sig w = Signal_history env sig wp"
          using a c v p e None n by (simp add: Signal_def)
        then show ?thesis
          using a c v wp hs by (simp add: Signal_history_fields Signal_history_spec)
      qed
    qed
  qed
qed

lemma Signal_clock_scanline:
  "scanline (cur (snd (Signal_clock env w))) = scanline (cur w) \<or>
   scanline (cur (snd (Signal_clock env w))) = scanline (cur w) + 1 \<or>
   scanline (cur (snd (Signal_clock env w))) = 0"
  using newFrame_scanline [of env False
          "modst (\<lambda>s. s\<lparr>scanline := scanline s + 1\<rparr>)
             (modst (\<lambda>s. s\<lparr>horizPos := 0\<rparr>) (modst (\<lambda>s. s\<lparr>horizPos := horizPos s + 1\<rparr>) w))"]
  by (auto simp add: Signal_clock_def Let_def newScanline_cur)

lemma Signal_scanline_nonneg:
  assumes "0 \<le> scanline (cur w)"
  shows "0 \<le> scanline (cur (snd (Signal env sig w)))"
proof (cases "fst (Signal_audio env sig w)")
  case (Some e)
  then show ?thesis using assms Signal_scanline_spec(1) [of env sig w] by simp
next
  case None
  let ?x = "Signal_examine env sig (snd (Signal_audio env sig w))"
  have x: "0 \<le> scanline (cur ?x)" using assms by (simp add: Signal_examine_cur Signal_audio_cur)
  have c: "0 \<le> scanline (cur (snd (Signal_clock env ?x)))"
    using Signal_clock_scanline [of env ?x] x by auto
  show ?thesis
  proof (cases "fst (Signal_clock env ?x)")
    case (Some e)
    then show ?thesis using Signal_scanline_spec(2) [OF None, of ] c by simp
  next
    case n: None
    from Signal_scanline_spec(3) [OF None n] Signal_vsync_scanline [of env sig "snd (Signal_clock env ?x)"] c
    show ?thesis by auto
  qed
qed

lemma Signal_inTable:
  assumes "inTable env (cur w)"
  shows "inTable env (cur (snd (Signal env sig w)))"
proof (cases "fst (Signal_audio env sig w)")
  case (Some e)
  then show ?thesis using assms Signal_scanline_spec(1) [of env sig w] by simp
next
  case None
  let ?x = "Signal_examine env sig (snd (Signal_audio env sig w))"
  have x: "inTable env (cur ?x)" using assms by (simp add: Signal_examine_cur Signal_audio_cur)
  have c: "inTable env (cur (snd (Signal_clock env ?x)))"
    using Signal_clock_spec [of env ?x] x by (auto simp add: inTable_def)
  show ?thesis
  proof (cases "fst (Signal_clock env ?x)")
    case (Some e)
    then show ?thesis using Signal_scanline_spec(2) [OF None, of ] c by simp
  next
    case n: None
    from Signal_scanline_spec(3) [OF None n] Signal_vsync_spec [of env sig "snd (Signal_clock env ?x)"] c
    show ?thesis by (auto simp add: inTable_def)
  qed
qed

lemma Signal_clock_range_all:
  assumes up: "ToUpper env ''PAL'' = ''PAL''"
    and n0: "0 \<le> ScanlinesTotal (SpecNTSC env)"
    and np: "ScanlinesTotal (SpecNTSC env) \<le> ScanlinesTotal (SpecPAL env)"
    and r: "scanline (cur w) \<le> ScanlinesTotal (spec (cur w))"
    and tb: "inTable env (cur w)"
    and nc: "flyS (cur w) \<Longrightarrow>
               (case fst (Signal_clock env w) of None \<Rightarrow> True | Some e \<Rightarrow> isFrameTriggerError e)"
  shows "scanline (cur (snd (Signal_clock env w))) \<le> ScanlinesTotal (spec (cur (snd (Signal_clock env w))))"
proof (cases "flyS (cur w)")
  case True
  let ?w3 = "modst (\<lambda>s. s\<lparr>scanline := scanline s + 1\<rparr>)
             (modst (\<lambda>s. s\<lparr>horizPos := 0\<rparr>) (modst (\<lambda>s. s\<lparr>horizPos := horizPos s + 1\<rparr>) w))"
  from True have c: "Signal_clock env w = newFrame env False ?w3"
    by (simp add: Signal_clock_def Let_def flyS_def)
  have z: "scanline (cur (snd (newFrame env False ?w3))) = 0"
  proof (cases "fst (newFrame env False ?w3)")
    case None
    then show ?thesis by (simp add: newFrame_ok)
  next
    case (Some e)
    with nc [OF True] c have "isFrameTriggerError e" by simp
    from newFrame_trigger_error [OF Some this] show ?thesis .
  qed
  have "spec (cur (snd (newFrame env False ?w3))) = spec (cur w) \<or>
        spec (cur (snd (newFrame env False ?w3))) = SpecPAL env"
    using newFrame_spec_up [OF up, of False ?w3] by simp
  with tb n0 np have "0 \<le> ScanlinesTotal (spec (cur (snd (newFrame env False ?w3))))"
    by (auto simp add: inTable_def)
  with z show ?thesis by (simp add: c)
next
  case False
  then show ?thesis using r
    by (auto simp add: Signal_clock_def Let_def flyS_def newScanline_cur)
qed

lemma Signal_vsync_range_all:
  assumes up: "ToUpper env ''PAL'' = ''PAL''"
    and n0: "0 \<le> ScanlinesTotal (SpecNTSC env)"
    and np: "ScanlinesTotal (SpecNTSC env) \<le> ScanlinesTotal (SpecPAL env)"
    and r: "scanline (cur w) \<le> ScanlinesTotal (spec (cur w))"
    and tb: "inTable env (cur w)"
  shows "scanline (cur (snd (Signal_vsync env sig w))) \<le> ScanlinesTotal (spec (cur (snd (Signal_vsync env sig w))))"
proof -
  have sp: "spec (cur (snd (Signal_vsync env sig w))) = spec (cur w) \<or>
        spec (cur (snd (Signal_vsync env sig w))) = SpecPAL env"
    using newFrame_spec_up [OF up, of True w] by (simp add: Signal_vsync_def)
  from tb n0 np have t: "ScanlinesTotal (spec (cur w)) \<le> ScanlinesTotal (SpecPAL env)"
    "0 \<le> ScanlinesTotal (spec (cur w))" "0 \<le> ScanlinesTotal (SpecPAL env)"
    by (auto simp add: inTable_def)
  from Signal_vsync_scanline [of env sig w] sp t r show ?thesis by auto
qed

lemma Signal_range_all:
  assumes up: "ToUpper env ''PAL'' = ''PAL''"
    and n0: "0 \<le> ScanlinesTotal (SpecNTSC env)"
    and np: "ScanlinesTotal (SpecNTSC env) \<le> ScanlinesTotal (SpecPAL env)"
    and r: "inRange (cur w)" and tb: "inTable env (cur w)"
    and nc: "\<not> cutFlyback env sig w"
  shows "inRange (cur (snd (Signal env sig w)))"
proof -
  let ?w' = "snd (Signal env sig w)"
  from r have h: "horizInRange (cur ?w')"
    using Signal_horizPos [of w env sig] by (simp add: inRange_def horizInRange_def)
  from r have n: "0 \<le> scanline (cur ?w')"
    using Signal_scanline_nonneg [of w env sig] by (simp add: inRange_def)
  have "scanline (cur ?w') \<le> ScanlinesTotal (spec (cur ?w'))"
  proof (cases "fst (Signal_audio env sig w)")
    case (Some e)
    then show ?thesis using r Signal_scanline_spec(1) [of env sig w] by (simp add: inRange_def)
  next
    case None
    let ?x = "Signal_examine env sig (snd (Signal_audio env sig w))"
    have x: "cur ?x = cur w" by (simp add: Signal_examine_cur Signal_audio_cur)
    have xr: "scanline (cur ?x) \<le> ScanlinesTotal (spec (cur ?x))" and xt: "inTable env (cur ?x)"
      using r tb by (simp_all add: x inRange_def)
    have xc: "flyS (cur ?x) \<Longrightarrow>
               (case fst (Signal_clock env ?x) of None \<Rightarrow> True | Some e \<Rightarrow> isFrameTriggerError e)"
      using nc None by (simp add: cutFlyback_def x split: option.splits)
    note c = Signal_clock_range_all [OF up n0 np xr xt xc]
    show ?thesis
    proof (cases "fst (Signal_clock env ?x)")
      case (Some e)
      then show ?thesis using Signal_scanline_spec(2) [OF None, of ] c by simp
    next
      case n: None
      have ct: "inTable env (cur (snd (Signal_clock env ?x)))"
        using Signal_clock_spec [of env ?x] xt by (auto simp add: inTable_def)
      from Signal_vsync_range_all [OF up n0 np c ct, of sig] Signal_scanline_spec(3) [OF None n]
      show ?thesis by simp
    qed
  qed
  with h n show ?thesis by (simp add: inRange_def)
qed

lemma runAll_Cons: "runAll env (sig # sigs) w = runAll env sigs (snd (Signal env sig w))"
  by (simp add: runAll_def)

lemma runAll_always:
  "horizInRange (cur w) \<Longrightarrow> 0 \<le> scanline (cur w) \<Longrightarrow> inTable env (cur w) \<Longrightarrow>
     horizInRange (cur (runAll env sigs w)) \<and> 0 \<le> scanline (cur (runAll env sigs w)) \<and>
     inTable env (cur (runAll env sigs w))"
proof (induction sigs arbitrary: w)
  case Nil
  then show ?case by (simp add: runAll_def)
next
  case (Cons sig sigs)
  have "horizInRange (cur (snd (Signal env sig w)))"
    using Cons.prems(1) Signal_horizPos [of w env sig] by (simp add: horizInRange_def)
  from Cons.IH [OF this Signal_scanline_nonneg [OF Cons.prems(2)] Signal_inTable [OF Cons.prems(3)]]
  show ?case by (simp only: runAll_Cons)
qed

lemma runAll_range:
  assumes up: "ToUpper env ''PAL'' = ''PAL''"
    and n0: "0 \<le> ScanlinesTotal (SpecNTSC env)"
    and np: "ScanlinesTotal (SpecNTSC env) \<le> ScanlinesTotal (SpecPAL env)"
  shows "inRange (cur w) \<Longrightarrow> inTable env (cur w) \<Longrightarrow> neverCut env sigs w \<Longrightarrow>
     inRange (cur (runAll env sigs w))"
proof (induction sigs arbitrary: w)
  case Nil
  then show ?case by (simp add: runAll_def)
next
  case (Cons sig sigs)
  from Cons.prems(3) have a: "\<not> cutFlyback env sig w" and b: "neverCut env sigs (snd (Signal env sig w))"
    by simp_all
  from Cons.IH [OF Signal_range_all [OF up n0 np Cons.prems(1,2) a] Signal_inTable [OF Cons.prems(2)] b]
  show ?case by (simp only: runAll_Cons)
qed

end
